theory Spec2Isabelle
  imports Main
begin

section \<open>Awaited calls: thrown values, outcomes, state passing\<close>

text \<open>
  The orchestrator is asynchronous TypeScript. Every \<^verbatim>\<open>await\<close> either yields a value,
  throws, or never continues because the awaited promise never settles. A thrown value is
  carried by its message (\<^verbatim>\<open>new Error(msg)\<close>, read back as \<^verbatim>\<open>err.message\<close>).
\<close>

datatype error = Error string

datatype 'a outcome = Returns 'a | Throws error | Stalls

text \<open>An effectful computation over a state \<open>'s\<close>: it yields its outcome and the new state.\<close>

type_synonym ('s, 'a) io = "'s \<Rightarrow> 'a outcome \<times> 's"

definition io_return :: "'a \<Rightarrow> ('s, 'a) io" where
  "io_return v = (\<lambda>s. (Returns v, s))"

definition io_throw :: "error \<Rightarrow> ('s, 'a) io" where
  "io_throw e = (\<lambda>s. (Throws e, s))"

text \<open>Sequencing (\<^verbatim>\<open>const x = await m; f(x)\<close>): a throw or a stall of \<open>m\<close> ends the sequence.\<close>

definition io_bind :: "('s, 'a) io \<Rightarrow> ('a \<Rightarrow> ('s, 'b) io) \<Rightarrow> ('s, 'b) io" where
  "io_bind m f =
     (\<lambda>s. case m s of
            (Returns v, s1) \<Rightarrow> f v s1
          | (Throws e, s1) \<Rightarrow> (Throws e, s1)
          | (Stalls, s1) \<Rightarrow> (Stalls, s1))"

text \<open>\<^verbatim>\<open>try { m } catch (error) { h(error) }\<close>.\<close>

definition io_catch :: "('s, 'a) io \<Rightarrow> (error \<Rightarrow> ('s, 'a) io) \<Rightarrow> ('s, 'a) io" where
  "io_catch m h =
     (\<lambda>s. case m s of
            (Throws e, s1) \<Rightarrow> h e s1
          | (r, s1) \<Rightarrow> (r, s1))"

section \<open>RetryPolicy: \<^verbatim>\<open>src/utils/retryOperation.ts\<close>\<close>

text \<open>
  \<^verbatim>\<open>
  let attempt = 0;
  while (attempt <= maxRetries) {
    try { return await operation(); }
    catch (err) {
      if (onError) { await onError(err, attempt, maxRetries); }
      if (attempt === maxRetries) { throw err; }
      attempt++;
    }
  }
  throw new Error("Unreachable code in retryOperation");
  \<close>
  The loop is the recursive function \<open>retry_loop\<close>, started at attempt \<open>0\<close>. Beside the
  outcome and the state it returns one record per loop iteration: the attempt index, what
  the operation did, and what the callback did when it was invoked (\<open>None\<close> when it was
  not). The records are an observation of the run; they do not influence it.
  \<^verbatim>\<open>onError\<close> is optional (\<open>None\<close> when it is not passed); when it throws inside the
  \<^verbatim>\<open>catch\<close> block that throw leaves the function. \<^verbatim>\<open>maxRetries\<close> and \<^verbatim>\<open>attempt\<close>
  are integers here (the callers pass the literal 2).
\<close>

record 'a iteration =
  attempt_of :: int
  operation_outcome :: "'a outcome"
  onError_outcome :: "unit outcome option"

function retry_loop ::
  "('s, 'a) io \<Rightarrow> int \<Rightarrow> (error \<Rightarrow> int \<Rightarrow> int \<Rightarrow> ('s, unit) io) option \<Rightarrow> int \<Rightarrow> 's
     \<Rightarrow> ('a outcome \<times> 's) \<times> 'a iteration list" where
  "retry_loop operation maxRetries onError attempt s =
     (if attempt \<le> maxRetries then
        (case operation s of
           (Returns v, s1) \<Rightarrow>
             ((Returns v, s1),
              [\<lparr>attempt_of = attempt, operation_outcome = Returns v, onError_outcome = None\<rparr>])
         | (Stalls, s1) \<Rightarrow>
             ((Stalls, s1),
              [\<lparr>attempt_of = attempt, operation_outcome = Stalls, onError_outcome = None\<rparr>])
         | (Throws err, s1) \<Rightarrow>
             (case (case onError of
                      None \<Rightarrow> (None, s1)
                    | Some cb \<Rightarrow> (case cb err attempt maxRetries s1 of (c, s2) \<Rightarrow> (Some c, s2))) of
                (notified, s2) \<Rightarrow>
                  (let it = \<lparr>attempt_of = attempt, operation_outcome = Throws err,
                              onError_outcome = notified\<rparr>
                   in case notified of
                        Some (Throws err') \<Rightarrow> ((Throws err', s2), [it])
                      | Some Stalls \<Rightarrow> ((Stalls, s2), [it])
                      | _ \<Rightarrow>
                          (if attempt = maxRetries then ((Throws err, s2), [it])
                           else (case retry_loop operation maxRetries onError (attempt + 1) s2 of
                                   (r, its) \<Rightarrow> (r, it # its))))))
      else ((Throws (Error ''Unreachable code in retryOperation''), s), []))"
  by pat_completeness auto
termination
  by (relation "measure (\<lambda>(operation, maxRetries, onError, attempt, s). nat (maxRetries + 1 - attempt))")
    auto

declare retry_loop.simps [simp del]

definition retryOperation ::
  "('s, 'a) io \<Rightarrow> int \<Rightarrow> (error \<Rightarrow> int \<Rightarrow> int \<Rightarrow> ('s, unit) io) option \<Rightarrow> ('s, 'a) io" where
  "retryOperation operation maxRetries onError s = fst (retry_loop operation maxRetries onError 0 s)"

definition retry_iterations ::
  "('s, 'a) io \<Rightarrow> int \<Rightarrow> (error \<Rightarrow> int \<Rightarrow> int \<Rightarrow> ('s, unit) io) option \<Rightarrow> 's
     \<Rightarrow> 'a iteration list" where
  "retry_iterations operation maxRetries onError s =
     snd (retry_loop operation maxRetries onError 0 s)"

text \<open>The attempt indices the callback was invoked with, in order.\<close>

definition callback_attempts :: "'a iteration list \<Rightarrow> int list" where
  "callback_attempts its = map attempt_of (filter (\<lambda>it. onError_outcome it \<noteq> None) its)"

text \<open>Every attempt of the run threw.\<close>

definition every_attempt_failed :: "'a iteration list \<Rightarrow> bool" where
  "every_attempt_failed its =
     list_all (\<lambda>it. case operation_outcome it of Throws e \<Rightarrow> True | _ \<Rightarrow> False) its"

text \<open>The callback returned normally wherever it was invoked.\<close>

definition callbacks_returned :: "'a iteration list \<Rightarrow> bool" where
  "callbacks_returned its =
     list_all (\<lambda>it. case onError_outcome it of
                       Some (Throws e) \<Rightarrow> False | Some Stalls \<Rightarrow> False | _ \<Rightarrow> True) its"

text \<open>An operation that throws \<^verbatim>\<open>boom\<close> on every call and counts its calls in the state,
  and a callback that only returns: the run used to illustrate the retry loop.\<close>

definition always_boom :: "(nat, nat) io" where
  "always_boom = (\<lambda>n. (Throws (Error ''boom''), Suc n))"

definition quiet_callback :: "error \<Rightarrow> int \<Rightarrow> int \<Rightarrow> (nat, unit) io" where
  "quiet_callback = (\<lambda>err attempt maxRetries. io_return ())"

section \<open>Data of the ledger, the plan registry and the chain\<close>

type_synonym address = string

subsection \<open>Plan descriptor (DDO)\<close>

text \<open>
  The descriptor is untyped JSON in the source, read through optional chaining. Only the
  paths the code reads are kept; every object or field that may be missing is an option.
  \<open>nvm_networks\<close> holds the keys of \<^verbatim>\<open>_nvm.networks\<close>, each as \<^verbatim>\<open>parseInt\<close> reads it
  (\<open>None\<close> for \<^verbatim>\<open>NaN\<close>); the field is \<open>None\<close> when \<^verbatim>\<open>_nvm\<close> or \<^verbatim>\<open>networks\<close> is missing.
\<close>

record parameter =
  param_name :: string
  param_value :: "string option"

record condition =
  cond_name :: string
  cond_parameters :: "parameter list option"

record agreement_template =
  conditions :: "condition list option"

record additional_info =
  erc20TokenAddress :: "string option"
  symbol :: "string option"
  priceHighestDenomination :: "string option"

record service_attributes =
  additionalInformation :: "additional_info option"
  serviceAgreementTemplate :: "agreement_template option"

record service_entry =
  attributes :: "service_attributes option"

record public_key =
  owner :: "string option"

record ddo =
  service :: "service_entry list option"
  publicKey :: "public_key list option"
  nvm_networks :: "int option list option"

subsection \<open>Ledger records\<close>

text \<open>\<^verbatim>\<open>getPlanBalance\<close>: \<open>balance\<close> is the value as \<^verbatim>\<open>parseInt\<close> reads it (\<open>None\<close> for
  \<^verbatim>\<open>NaN\<close>).\<close>

record plan_balance =
  balance :: "int option"
  isOwner :: bool

record order_result =
  success :: bool
  agreementId :: string

record character =
  character_name :: string
  character_id :: "string option"
  character_imagePrompt :: string
  character_imageUrl :: "string option"

record setting =
  setting_id :: string
  setting_name :: "string option"
  setting_imagePrompt :: string
  setting_imageUrl :: "string option"

record prompt =
  settingId :: string
  charactersInScene :: "string list"
  prompt_text :: string
  prompt_duration :: string

text \<open>The element of \<^verbatim>\<open>input_artifacts\<close> the image and video stages read, and the one the
  video stage writes (\<^verbatim>\<open>{ ...inputArtifacts, duration, generatedVideos }\<close>). \<open>extra\<close> are
  the fields the handlers pass through without reading them.\<close>

record scenes =
  characters :: "character list"
  settings :: "setting list"
  prompts :: "prompt list"
  duration :: string
  songUrl :: "string option"
  title :: "string option"
  extra :: "(string \<times> string) list"

record videos =
  passed_on :: "(string \<times> string option) list"
  videos_duration :: string
  generatedVideos :: "string list"

datatype artifact = Scenes scenes | Videos videos

record step =
  did :: string
  step_id :: string
  task_id :: string
  step_name :: string
  step_status :: string
  input_query :: string
  input_artifacts :: "artifact list"
  step_output :: "string option"
  output_artifacts :: "artifact list option"
  cost :: "nat option"

record new_step =
  new_step_id :: string
  new_task_id :: string
  predecessor :: string
  new_name :: string
  is_last :: bool

text \<open>\<^verbatim>\<open>AgentExecutionStatus\<close> of the payments library, as the strings the ledger stores.\<close>

definition Pending_status :: string where "Pending_status = ''Pending''"
definition Completed_status :: string where "Completed_status = ''Completed''"
definition Failed_status :: string where "Failed_status = ''Failed''"

subsection \<open>Remote tasks\<close>

record task_input =
  inference_type :: string
  input_id :: "string option"
  images :: "string option list"
  input_duration :: "string option"

record task_data =
  task_name :: string
  task_query :: string
  task_artifacts :: "task_input list"

text \<open>
  A completion signal is the string \<^verbatim>\<open>cbData\<close>; the callback reads it with
  \<^verbatim>\<open>JSON.parse\<close> and then reads \<^verbatim>\<open>task_status\<close> and \<^verbatim>\<open>task_id\<close>. A signal is kept
  in the form the callback sees: the error \<^verbatim>\<open>JSON.parse\<close> (or the property read) throws,
  or the two fields.
\<close>

datatype signal = Unparsable error | TaskLog string string

record acknowledgement =
  ack_status :: nat
  ack_data :: string

text \<open>
  What \<^verbatim>\<open>createTask\<close> does with one call: it invokes the callback for the signals
  that arrive before its own promise settles, settles (the acknowledgement, a throw, or never),
  and invokes the callback for the signals that arrive afterwards.
\<close>

record dispatch =
  signals_before :: "signal list"
  acknowledged :: "acknowledgement outcome"
  signals_after :: "signal list"

text \<open>\<^verbatim>\<open>getTaskWithSteps(...).data.task\<close>; \<open>None\<close> is a task without \<^verbatim>\<open>output_artifacts\<close>.\<close>

record task_view =
  view_status :: string
  view_output_artifacts :: "string list option"

subsection \<open>Chain records\<close>

record token =
  chainId :: "int option"
  token_address :: address
  decimals :: nat
  token_symbol :: string
  token_name :: string

record log_args =
  log_operator :: address
  log_from :: address
  log_to :: address
  log_id :: string
  log_value :: string

record chain_log =
  transactionHash :: string
  blockNumber :: nat
  args :: "log_args option"

record transfer_single =
  txHash :: string
  event_blockNumber :: nat
  event_operator :: "address option"
  event_from :: "address option"
  event_to :: "address option"
  event_tokenId :: "string option"
  event_value :: "string option"

record transfer_result =
  transfer_success :: bool
  transfer_txHash :: "string option"

record swap_result =
  swap_success :: bool
  swapTxHash :: "string option"
  transferTxHash :: "string option"

section \<open>The world outside the orchestrator\<close>

text \<open>
  Every call that leaves the orchestrator (ledger, plan registry, chain, notification sink,
  clock, identifier generator) is recorded as an event that carries its arguments and its
  outcome. Calls of the local logger are left out: they return nothing and cannot fail.
\<close>

datatype event =
    GetPlanBalance string "plan_balance outcome"
  | OrderPlan string "order_result outcome"
  | GetAssetDDO string "ddo option outcome"
  | GetStep string "step outcome"
  | UpdateStep string step "nat outcome"
  | CreateSteps string string "new_step list" "unit outcome"
  | GetServiceAccessConfig string "string outcome"
  | CreateTask string task_data string dispatch
  | GetTaskWithSteps string string string "task_view outcome"
  | LogMessage string string string "unit outcome"
  | SendFriendlySseEvent string string string "(string \<times> string option) list" "unit outcome"
  | Decimals address "nat outcome"
  | Symbol address "string outcome"
  | TokenName address "string outcome"
  | BalanceOf address address "nat outcome"
  | GetPair address address "address outcome"
  | GetReserves address "(string \<times> string) outcome"
  | GetTransactionCount address "nat outcome"
  | Approve address address string nat "string outcome"
  | SwapTokensForExactTokens string string "address list" address int nat "string outcome"
  | Transfer address address nat "nat option" "string outcome"
  | Wait string "unit outcome"
  | GetBlockNumber "nat outcome"
  | QueryFilter address "address option" address address nat "chain_log list outcome"
  | DateNow int
  | GenerateStepId string
  | SetUserRequest string string
  | ValidatorInvoked string

text \<open>
  The environment answers each call from the history of the events so far and the arguments
  of the call, so an answer may depend on anything that happened before. The constants of
  \<^verbatim>\<open>config/env\<close> and the address of the orchestrator's wallet are part of it, and so are
  the functions of the Uniswap SDK that \<^verbatim>\<open>performSwapForPlan\<close> uses: they are outside the
  repository and enter as parameters.
\<close>

record env =
  getPlanBalance_reply :: "event list \<Rightarrow> string \<Rightarrow> plan_balance outcome"
  orderPlan_reply :: "event list \<Rightarrow> string \<Rightarrow> order_result outcome"
  getAssetDDO_reply :: "event list \<Rightarrow> string \<Rightarrow> ddo option outcome"
  updateStep_reply :: "event list \<Rightarrow> string \<Rightarrow> step \<Rightarrow> nat outcome"
  createSteps_reply :: "event list \<Rightarrow> string \<Rightarrow> string \<Rightarrow> new_step list \<Rightarrow> unit outcome"
  getServiceAccessConfig_reply :: "event list \<Rightarrow> string \<Rightarrow> string outcome"
  createTask_reply :: "event list \<Rightarrow> string \<Rightarrow> task_data \<Rightarrow> string \<Rightarrow> dispatch"
  getTaskWithSteps_reply :: "event list \<Rightarrow> string \<Rightarrow> string \<Rightarrow> string \<Rightarrow> task_view outcome"
  logMessage_reply :: "event list \<Rightarrow> string \<Rightarrow> string \<Rightarrow> string \<Rightarrow> unit outcome"
  sendFriendlySseEvent_reply ::
    "event list \<Rightarrow> string \<Rightarrow> string \<Rightarrow> string \<Rightarrow> (string \<times> string option) list \<Rightarrow> unit outcome"
  decimals_reply :: "event list \<Rightarrow> address \<Rightarrow> nat outcome"
  symbol_reply :: "event list \<Rightarrow> address \<Rightarrow> string outcome"
  name_reply :: "event list \<Rightarrow> address \<Rightarrow> string outcome"
  balanceOf_reply :: "event list \<Rightarrow> address \<Rightarrow> address \<Rightarrow> nat outcome"
  getPair_reply :: "event list \<Rightarrow> address \<Rightarrow> address \<Rightarrow> address outcome"
  getReserves_reply :: "event list \<Rightarrow> address \<Rightarrow> (string \<times> string) outcome"
  getTransactionCount_reply :: "event list \<Rightarrow> address \<Rightarrow> nat outcome"
  approve_reply :: "event list \<Rightarrow> address \<Rightarrow> address \<Rightarrow> string \<Rightarrow> nat \<Rightarrow> string outcome"
  swapTokensForExactTokens_reply ::
    "event list \<Rightarrow> string \<Rightarrow> string \<Rightarrow> address list \<Rightarrow> address \<Rightarrow> int \<Rightarrow> nat \<Rightarrow> string outcome"
  transfer_reply :: "event list \<Rightarrow> address \<Rightarrow> address \<Rightarrow> nat \<Rightarrow> nat option \<Rightarrow> string outcome"
  wait_reply :: "event list \<Rightarrow> string \<Rightarrow> unit outcome"
  getBlockNumber_reply :: "event list \<Rightarrow> nat outcome"
  queryFilter_reply ::
    "event list \<Rightarrow> address \<Rightarrow> address option \<Rightarrow> address \<Rightarrow> address \<Rightarrow> nat \<Rightarrow> chain_log list outcome"
  dateNow_reply :: "event list \<Rightarrow> int"
  generateStepId_reply :: "event list \<Rightarrow> string"
  mathRandom_reply :: "event list \<Rightarrow> nat \<Rightarrow> nat"
  sdk_validateAndParseAddress :: "address \<Rightarrow> address outcome"
  sdk_sortsBefore :: "token \<Rightarrow> token \<Rightarrow> bool outcome"
  sdk_fromRawAmount :: "token \<Rightarrow> string \<Rightarrow> string outcome"
  sdk_maximumAmountIn :: "token \<Rightarrow> token \<Rightarrow> (string \<times> string) \<Rightarrow> string \<Rightarrow> string outcome"
  wallet_address :: address
  PLAN_DID :: string
  VIDEO_GENERATOR_DID :: string
  VIDEO_GENERATOR_PLAN_DID :: string
  UNISWAP_V2_ROUTER_ADDRESS :: address
  UNISWAP_V2_FACTORY_ADDRESS :: address

text \<open>
  The state of a run: the events so far, and the private field \<^verbatim>\<open>ddo\<close> of every
  \<^verbatim>\<open>PlanDDOHelper\<close> instance created so far, by instance number.
\<close>

record world =
  events :: "event list"
  ddo_field :: "nat \<Rightarrow> ddo option"
  helpers_made :: nat

type_synonym 'a act = "(world, 'a) io"

text \<open>A call that answers with an outcome, and one that cannot fail.\<close>

definition call :: "('a outcome \<Rightarrow> event) \<Rightarrow> (event list \<Rightarrow> 'a outcome) \<Rightarrow> 'a act" where
  "call ev reply = (\<lambda>w. let r = reply (events w) in (r, w\<lparr>events := events w @ [ev r]\<rparr>))"

definition call_local :: "('a \<Rightarrow> event) \<Rightarrow> (event list \<Rightarrow> 'a) \<Rightarrow> 'a act" where
  "call_local ev reply = (\<lambda>w. let r = reply (events w) in (Returns r, w\<lparr>events := events w @ [ev r]\<rparr>))"

text \<open>A call that is not awaited: it is made, its outcome is dropped.\<close>

definition not_awaited :: "'a act \<Rightarrow> unit act" where
  "not_awaited m = (\<lambda>w. (Returns (), snd (m w)))"

text \<open>A pure computation that may throw, inside a sequence.\<close>

definition io_of :: "'a outcome \<Rightarrow> ('s, 'a) io" where
  "io_of r = (\<lambda>s. (r, s))"

text \<open>The events a run from \<open>w\<close> to \<open>w'\<close> has added.\<close>

definition added :: "world \<Rightarrow> world \<Rightarrow> event list" where
  "added w w' = drop (length (events w)) (events w')"

subsection \<open>Strings and numbers\<close>

text \<open>
  \<^verbatim>\<open>ethers\<close> (version 5) is outside the repository; the two functions of it that the chain
  access applies to the amount strings are written out here.

  \<^verbatim>\<open>BigNumber.from(s)\<close> of a string: a string matching \<^verbatim>\<open>/^-?0x[0-9a-f]+$/i\<close> is read as a
  hexadecimal literal, a string matching \<^verbatim>\<open>/^-?[0-9]+$/\<close> as a decimal integer, and every
  other string (among them \<^verbatim>\<open>"1.5"\<close> and the empty string) throws.
\<close>

definition is_digit :: "char \<Rightarrow> bool" where
  "is_digit c = (48 \<le> (of_char c :: nat) \<and> (of_char c :: nat) \<le> 57)"

text \<open>The value of a string of decimal digits (0 for the empty string).\<close>

definition digits_value :: "string \<Rightarrow> nat" where
  "digits_value s = foldl (\<lambda>n c. 10 * n + (of_char c - 48)) 0 s"

definition decimal_value :: "string \<Rightarrow> nat option" where
  "decimal_value s =
     (if s = [] \<or> \<not> list_all is_digit s then None else Some (digits_value s))"

definition hex_digit :: "char \<Rightarrow> nat option" where
  "hex_digit c =
     (let k = (of_char c :: nat) in
      if 48 \<le> k \<and> k \<le> 57 then Some (k - 48)
      else if 97 \<le> k \<and> k \<le> 102 then Some (k - 87)
      else if 65 \<le> k \<and> k \<le> 70 then Some (k - 55)
      else None)"

definition hex_value :: "string \<Rightarrow> nat option" where
  "hex_value s =
     (if s = [] \<or> \<not> list_all (\<lambda>c. hex_digit c \<noteq> None) s then None
      else Some (foldl (\<lambda>n c. 16 * n + the (hex_digit c)) 0 s))"

text \<open>\<^verbatim>\<open>0x\<close> or \<^verbatim>\<open>0X\<close> followed by hexadecimal digits.\<close>

definition hex_literal :: "string \<Rightarrow> nat option" where
  "hex_literal s =
     (if take 2 s = ''0x'' \<or> take 2 s = ''0X'' then hex_value (drop 2 s) else None)"

text \<open>An optional leading minus sign.\<close>

definition signed_value :: "(string \<Rightarrow> nat option) \<Rightarrow> string \<Rightarrow> int option" where
  "signed_value rd s =
     (if take 1 s = ''-'' then map_option (\<lambda>n. - int n) (rd (drop 1 s))
      else map_option int (rd s))"

definition BigNumber_from :: "string \<Rightarrow> int outcome" where
  "BigNumber_from s =
     (case signed_value hex_literal s of
        Some v \<Rightarrow> Returns v
      | None \<Rightarrow>
          (case signed_value decimal_value s of
             Some v \<Rightarrow> Returns v
           | None \<Rightarrow> Throws (Error ''invalid BigNumber string'')))"

text \<open>
  \<^verbatim>\<open>ethers.utils.parseUnits(s, d)\<close> is \<^verbatim>\<open>parseFixed(s, d)\<close>: the number of decimals is at most
  256; the string matches \<^verbatim>\<open>/^-?[0-9.]+$/\<close>, is not a lone point and has at most one point;
  an empty whole or fractional part counts as \<^verbatim>\<open>"0"\<close>; trailing zeros of the fraction are
  dropped, what is left has at most \<open>d\<close> digits and is padded with zeros to \<open>d\<close> digits. The
  result is \<open>whole * 10 ^ d + fraction\<close>, negated after a minus sign. On a decimal integer
  string of value \<open>n\<close> it is \<open>n * 10 ^ d\<close>.
\<close>

definition parseUnits :: "string \<Rightarrow> nat \<Rightarrow> int outcome" where
  "parseUnits s d =
     (if 256 < d then Throws (Error ''invalid decimal size'')
      else
        let negative = (take 1 s = ''-'');
            v = (if negative then drop 1 s else s)
        in
        if v = [] \<or> \<not> list_all (\<lambda>c. is_digit c \<or> c = CHR ''.'') v then
          Throws (Error ''invalid decimal value'')
        else if v = ''.'' then Throws (Error ''missing value'')
        else if 1 < length (filter (\<lambda>c. c = CHR ''.'') v) then
          Throws (Error ''too many decimal points'')
        else
          let whole = takeWhile (\<lambda>c. c \<noteq> CHR ''.'') v;
              fraction = rev (dropWhile (\<lambda>c. c = CHR ''0'')
                                (rev (drop 1 (dropWhile (\<lambda>c. c \<noteq> CHR ''.'') v))))
          in
          if d < length fraction then Throws (Error ''fractional component exceeds decimals'')
          else
            let wei = int (digits_value whole * 10 ^ d +
                           digits_value fraction * 10 ^ (d - length fraction))
            in Returns (if negative then - wei else wei))"

text \<open>An argument of the ABI type \<^verbatim>\<open>uint256\<close>: encoding a value outside
  \<open>0 .. 2^256 - 1\<close> throws before anything is sent.\<close>

definition uint256 :: "int \<Rightarrow> nat outcome" where
  "uint256 v =
     (if 0 \<le> v \<and> v < 2 ^ 256 then Returns (nat v) else Throws (Error ''value out-of-bounds''))"

text \<open>Template literals print a number in decimal.\<close>

fun string_of_nat :: "nat \<Rightarrow> string" where
  "string_of_nat n =
     (if n < 10 then [char_of (48 + n)]
      else string_of_nat (n div 10) @ [char_of (48 + n mod 10)])"

declare string_of_nat.simps [simp del]

definition string_of_int :: "int \<Rightarrow> string" where
  "string_of_int i = (if i < 0 then ''-'' @ string_of_nat (nat (- i)) else string_of_nat (nat i))"

text \<open>JavaScript truthiness of an optional string: present and not empty.\<close>

definition truthy :: "string option \<Rightarrow> bool" where
  "truthy s = (case s of None \<Rightarrow> False | Some v \<Rightarrow> v \<noteq> [])"

text \<open>\<^verbatim>\<open>s.toLowerCase()\<close> on ASCII letters.\<close>

definition toLowerCase :: "string \<Rightarrow> string" where
  "toLowerCase s =
     map (\<lambda>c. if 65 \<le> (of_char c :: nat) \<and> (of_char c :: nat) \<le> 90
               then char_of ((of_char c :: nat) + 32) else c) s"

text \<open>\<^verbatim>\<open>xs?.[i]\<close>\<close>

definition nth_opt :: "'a list \<Rightarrow> nat \<Rightarrow> 'a option" where
  "nth_opt xs i = (if i < length xs then Some (xs ! i) else None)"

section \<open>Chain access: \<^verbatim>\<open>src/payments/blockchain.ts\<close>\<close>

text \<open>
  \<^verbatim>\<open>Promise.all\<close> of two promises: both calls are made; the result rejects when one of
  them rejects and stays pending when one never settles and none rejects. The model runs
  the two calls one after the other and, when both reject, reports the left one.
\<close>

definition promise_both :: "'a outcome \<Rightarrow> 'b outcome \<Rightarrow> ('a \<times> 'b) outcome" where
  "promise_both a b =
     (case a of
        Throws e \<Rightarrow> Throws e
      | Returns x \<Rightarrow> (case b of Returns y \<Rightarrow> Returns (x, y) | Throws e \<Rightarrow> Throws e | Stalls \<Rightarrow> Stalls)
      | Stalls \<Rightarrow> (case b of Throws e \<Rightarrow> Throws e | _ \<Rightarrow> Stalls))"

definition io_both :: "('s, 'a) io \<Rightarrow> ('s, 'b) io \<Rightarrow> ('s, 'a \<times> 'b) io" where
  "io_both m1 m2 = (\<lambda>s. case m1 s of (a, s1) \<Rightarrow> (case m2 s1 of (b, s2) \<Rightarrow> (promise_both a b, s2)))"

definition getBlockNumber :: "env \<Rightarrow> nat act" where
  "getBlockNumber env = call GetBlockNumber (getBlockNumber_reply env)"

text \<open>
  \<^verbatim>\<open>getTokenData\<close> ends in \<^verbatim>\<open>new Token(networkId, tokenAddress, decimals, symbol, name)\<close>. The
  constructor of the Uniswap SDK throws unless the chain id is a safe integer (\<open>None\<close> is
  \<^verbatim>\<open>NaN\<close>, what \<^verbatim>\<open>parseInt\<close> gives when there is no network key) and the decimals are below
  255, and it validates the address: the token carries the address the validation returns.
\<close>

definition isSafeInteger :: "int option \<Rightarrow> bool" where
  "isSafeInteger k = (case k of None \<Rightarrow> False | Some i \<Rightarrow> - (2 ^ 53) < i \<and> i < 2 ^ 53)"

definition new_Token :: "env \<Rightarrow> int option \<Rightarrow> address \<Rightarrow> nat \<Rightarrow> string \<Rightarrow> string \<Rightarrow> token outcome" where
  "new_Token env networkId tokenAddress d s n =
     (if \<not> isSafeInteger networkId then Throws (Error ''Invariant failed: CHAIN_ID'')
      else if \<not> d < 255 then Throws (Error ''Invariant failed: DECIMALS'')
      else (case sdk_validateAndParseAddress env tokenAddress of
              Returns checked \<Rightarrow>
                Returns \<lparr>chainId = networkId, token_address = checked, decimals = d,
                         token_symbol = s, token_name = n\<rparr>
            | Throws e \<Rightarrow> Throws e
            | Stalls \<Rightarrow> Stalls))"

definition getTokenData :: "env \<Rightarrow> address \<Rightarrow> int option \<Rightarrow> token act" where
  "getTokenData env tokenAddress networkId =
     io_bind
       (io_both (call (Decimals tokenAddress) (\<lambda>h. decimals_reply env h tokenAddress))
          (io_both (call (Symbol tokenAddress) (\<lambda>h. symbol_reply env h tokenAddress))
             (call (TokenName tokenAddress) (\<lambda>h. name_reply env h tokenAddress))))
       (\<lambda>(d, s, n). io_of (new_Token env networkId tokenAddress d s n))"

definition isBalanceSufficient :: "env \<Rightarrow> address \<Rightarrow> address \<Rightarrow> string \<Rightarrow> bool act" where
  "isBalanceSufficient env tokenAddress walletAddress requiredAmount =
     io_bind (call (Decimals tokenAddress) (\<lambda>h. decimals_reply env h tokenAddress)) (\<lambda>decimals.
     io_bind (call (BalanceOf tokenAddress walletAddress)
                (\<lambda>h. balanceOf_reply env h tokenAddress walletAddress)) (\<lambda>balance.
     io_bind (io_of (parseUnits requiredAmount decimals)) (\<lambda>requiredBN.
     io_return (requiredBN \<le> int balance))))"

text \<open>
  \<^verbatim>\<open>
  const balance = await tokenContract.balanceOf(walletAddress);
  if (balance.lt(amount)) { return { success: false }; }
  const amountBN = ethers.utils.parseUnits(amount, await tokenContract.decimals());
  const txOptions = nonce !== undefined ? { nonce } : {};
  const tx = await tokenContract.transfer(agentWallet, amountBN, txOptions);
  await tx.wait();
  return { success: true, txHash: tx.hash };
  \<close>
  The signer is the wallet; \<^verbatim>\<open>signer.getAddress()\<close> is its address.
  \<^verbatim>\<open>balance.lt(amount)\<close> reads the string \<^verbatim>\<open>amount\<close> through \<^verbatim>\<open>BigNumber.from\<close>; the
  amount of \<^verbatim>\<open>transfer(address, uint256)\<close> is encoded as a \<^verbatim>\<open>uint256\<close>.
\<close>

definition transferAmountToAgentWallet ::
  "env \<Rightarrow> address \<Rightarrow> address \<Rightarrow> address \<Rightarrow> string \<Rightarrow> nat option \<Rightarrow> transfer_result act" where
  "transferAmountToAgentWallet env tokenAddress signer agentWallet amount nonce =
     io_bind (call (BalanceOf tokenAddress signer)
                (\<lambda>h. balanceOf_reply env h tokenAddress signer)) (\<lambda>balance.
     io_bind (io_of (BigNumber_from amount)) (\<lambda>amount_read.
       if int balance < amount_read then
         io_return \<lparr>transfer_success = False, transfer_txHash = None\<rparr>
       else
         io_bind (call (Decimals tokenAddress) (\<lambda>h. decimals_reply env h tokenAddress)) (\<lambda>d.
         io_bind (io_of (parseUnits amount d)) (\<lambda>amountBN.
         io_bind (io_of (uint256 amountBN)) (\<lambda>encoded.
         io_bind (call (Transfer tokenAddress agentWallet encoded nonce)
                    (\<lambda>h. transfer_reply env h tokenAddress agentWallet encoded nonce)) (\<lambda>tx.
         io_bind (call (Wait tx) (\<lambda>h. wait_reply env h tx)) (\<lambda>_.
         io_return \<lparr>transfer_success = True, transfer_txHash = Some tx\<rparr>)))))))"

definition getPairAddress :: "env \<Rightarrow> token \<Rightarrow> token \<Rightarrow> address act" where
  "getPairAddress env tokenA tokenB =
     io_bind (io_of (sdk_sortsBefore env tokenA tokenB)) (\<lambda>before.
       let token0 = (if before then tokenA else tokenB);
           token1 = (if before then tokenB else tokenA)
       in call (GetPair (token_address token0) (token_address token1))
            (\<lambda>h. getPair_reply env h (token_address token0) (token_address token1)))"

text \<open>\<^verbatim>\<open>getPairInstance\<close>: the reserves of the pair, in the order of the sorted tokens. The
  \<^verbatim>\<open>Pair\<close> object itself is built inside \<open>sdk_maximumAmountIn\<close>.\<close>

definition getPairInstance :: "env \<Rightarrow> address \<Rightarrow> token \<Rightarrow> token \<Rightarrow> (string \<times> string) act" where
  "getPairInstance env pairAddress tokenA tokenB =
     io_bind (call (GetReserves pairAddress) (\<lambda>h. getReserves_reply env h pairAddress)) (\<lambda>reserves.
     io_bind (io_of (sdk_sortsBefore env tokenA tokenB)) (\<lambda>before.
     io_return reserves))"

text \<open>
  \<^verbatim>\<open>performSwapForPlan\<close>. The nonce is a JavaScript number incremented with \<^verbatim>\<open>nonce++\<close>;
  it is a natural number here (exact below \<open>2^53\<close>). The \<^verbatim>\<open>catch\<close> block logs and rethrows.
\<close>

definition performSwapForPlan ::
  "env \<Rightarrow> string \<Rightarrow> address \<Rightarrow> address \<Rightarrow> address \<Rightarrow> int option \<Rightarrow> swap_result act" where
  "performSwapForPlan env requiredAmount ourTokenAddress externalTokenAddress agentWallet networkId =
     io_catch
       (io_bind (io_both (getTokenData env ourTokenAddress networkId)
                         (getTokenData env externalTokenAddress networkId)) (\<lambda>(ourToken, extToken).
        io_bind (io_of (sdk_fromRawAmount env extToken requiredAmount)) (\<lambda>amountOut.
        io_bind (getPairAddress env ourToken extToken) (\<lambda>pairAddress.
        io_bind (getPairInstance env pairAddress ourToken extToken) (\<lambda>pairInstance.
        io_bind (io_of (sdk_maximumAmountIn env ourToken extToken pairInstance amountOut)) (\<lambda>maxAmountIn.
        io_bind (call (GetTransactionCount (wallet_address env))
                   (\<lambda>h. getTransactionCount_reply env h (wallet_address env))) (\<lambda>nonce.
        io_bind (call (Approve (token_address ourToken) (UNISWAP_V2_ROUTER_ADDRESS env) maxAmountIn nonce)
                   (\<lambda>h. approve_reply env h (token_address ourToken) (UNISWAP_V2_ROUTER_ADDRESS env)
                          maxAmountIn nonce)) (\<lambda>approveTx.
        io_bind (call (Wait approveTx) (\<lambda>h. wait_reply env h approveTx)) (\<lambda>_.
        io_bind (call_local DateNow (dateNow_reply env)) (\<lambda>now.
          let nonce1 = nonce + 1;
              deadline = now div 1000 + 60 * 20;
              path = [token_address ourToken, token_address extToken]
          in
        io_bind (call (SwapTokensForExactTokens requiredAmount maxAmountIn path (wallet_address env)
                         deadline nonce1)
                   (\<lambda>h. swapTokensForExactTokens_reply env h requiredAmount maxAmountIn path
                          (wallet_address env) deadline nonce1)) (\<lambda>swapTx.
        io_bind (call (Wait swapTx) (\<lambda>h. wait_reply env h swapTx)) (\<lambda>_.
          let nonce2 = nonce1 + 1 in
        io_bind (transferAmountToAgentWallet env (token_address extToken) (wallet_address env)
                   agentWallet requiredAmount (Some nonce2)) (\<lambda>transferResult.
        io_return \<lparr>swap_success = True, swapTxHash = Some swapTx,
                   transferTxHash = transfer_txHash transferResult\<rparr>)))))))))))))
       (\<lambda>error. io_throw error)"

subsection \<open>Observations of a run on the chain\<close>

datatype tx_kind = ApproveTx | SwapTx | TransferTx

text \<open>The transactions submitted from the orchestrator wallet, with the nonce each carries,
  and the outcomes of the nonce fetches, both in order.\<close>

fun submitted_tx :: "event \<Rightarrow> (tx_kind \<times> nat option) list" where
  "submitted_tx (Approve t s a n r) = [(ApproveTx, Some n)]"
| "submitted_tx (SwapTokensForExactTokens a m p t d n r) = [(SwapTx, Some n)]"
| "submitted_tx (Transfer t a v n r) = [(TransferTx, n)]"
| "submitted_tx _ = []"

definition submitted :: "event list \<Rightarrow> (tx_kind \<times> nat option) list" where
  "submitted es = concat (map submitted_tx es)"

fun nonce_fetch :: "event \<Rightarrow> nat outcome list" where
  "nonce_fetch (GetTransactionCount a r) = [r]"
| "nonce_fetch _ = []"

definition nonce_fetches :: "event list \<Rightarrow> nat outcome list" where
  "nonce_fetches es = concat (map nonce_fetch es)"

fun is_Transfer :: "event \<Rightarrow> bool" where
  "is_Transfer (Transfer t a v n r) = True"
| "is_Transfer _ = False"

definition transfers :: "event list \<Rightarrow> event list" where
  "transfers es = filter is_Transfer es"

text \<open>The transactions of one swap settlement in their order, carrying consecutive nonces
  from \<open>n\<close>; a run that stops early has submitted an initial part of them.\<close>

definition consecutive_from :: "nat \<Rightarrow> (tx_kind \<times> nat option) list \<Rightarrow> bool" where
  "consecutive_from n txs =
     (txs = [] \<or>
      txs = [(ApproveTx, Some n)] \<or>
      txs = [(ApproveTx, Some n), (SwapTx, Some (n + 1))] \<or>
      txs = [(ApproveTx, Some n), (SwapTx, Some (n + 1)), (TransferTx, Some (n + 2))])"

text \<open>At most one nonce fetch; nothing is submitted unless it returned \<open>n\<close>, and what is
  submitted then is numbered consecutively from \<open>n\<close>.\<close>

definition nonce_discipline :: "event list \<Rightarrow> bool" where
  "nonce_discipline es =
     (case nonce_fetches es of
        [] \<Rightarrow> submitted es = []
      | [Returns n] \<Rightarrow> consecutive_from n (submitted es)
      | [_] \<Rightarrow> submitted es = []
      | _ \<Rightarrow> False)"

section \<open>PlanAccount: the class \<^verbatim>\<open>PlanDDOHelper\<close>\<close>

text \<open>
  An instance is a reference: its number and the immutable \<^verbatim>\<open>planDid\<close>. Its private field
  \<^verbatim>\<open>ddo\<close> lives in the world, \<open>None\<close> while it is \<^verbatim>\<open>undefined\<close>. \<^verbatim>\<open>payments\<close> is the
  environment.
\<close>

record PlanDDOHelper =
  helper_id :: nat
  planDid :: string

definition new_PlanDDOHelper :: "string \<Rightarrow> PlanDDOHelper act" where
  "new_PlanDDOHelper plan =
     (\<lambda>w. (Returns \<lparr>helper_id = helpers_made w, planDid = plan\<rparr>,
            w\<lparr>ddo_field := (ddo_field w)(helpers_made w := None),
              helpers_made := Suc (helpers_made w)\<rparr>))"

text \<open>
  \<^verbatim>\<open>if (!this.ddo) { this.ddo = await this.payments.getAssetDDO(this.planDid); } return this.ddo;\<close>
  The registry may answer with a value that is not a descriptor (\<^verbatim>\<open>null\<close>,
  \<^verbatim>\<open>undefined\<close>): that is the answer \<open>None\<close>, which leaves the field empty.
\<close>

definition loadDDO :: "env \<Rightarrow> PlanDDOHelper \<Rightarrow> ddo option act" where
  "loadDDO env this =
     (\<lambda>w. case ddo_field w (helper_id this) of
            Some d \<Rightarrow> (Returns (Some d), w)
          | None \<Rightarrow>
              io_bind (call (GetAssetDDO (planDid this)) (\<lambda>h. getAssetDDO_reply env h (planDid this)))
                (\<lambda>loaded w1. (Returns loaded,
                                w1\<lparr>ddo_field := (ddo_field w1)(helper_id this := loaded)\<rparr>)) w)"

text \<open>\<^verbatim>\<open>ddo?.service?.[2]?.attributes\<close> and \<^verbatim>\<open>...?.additionalInformation\<close>.\<close>

definition service2_attributes :: "ddo option \<Rightarrow> service_attributes option" where
  "service2_attributes d =
     Option.bind d (\<lambda>d. Option.bind (service d) (\<lambda>s. Option.bind (nth_opt s 2) attributes))"

definition additional_information :: "ddo option \<Rightarrow> additional_info option" where
  "additional_information d = Option.bind (service2_attributes d) additionalInformation"

definition getTokenAddress :: "env \<Rightarrow> PlanDDOHelper \<Rightarrow> string option act" where
  "getTokenAddress env this =
     io_bind (loadDDO env this) (\<lambda>d.
       io_return (Option.bind (additional_information d) erc20TokenAddress))"

definition getTokenName :: "env \<Rightarrow> PlanDDOHelper \<Rightarrow> string option act" where
  "getTokenName env this =
     io_bind (loadDDO env this) (\<lambda>d.
       io_return (Option.bind (additional_information d) symbol))"

text \<open>\<^verbatim>\<open>...?.priceHighestDenomination?.toString() || "0"\<close>: the field holds the printed
  price.\<close>

definition getPlanPrice :: "env \<Rightarrow> PlanDDOHelper \<Rightarrow> string act" where
  "getPlanPrice env this =
     io_bind (loadDDO env this) (\<lambda>d.
       io_return (case Option.bind (additional_information d) priceHighestDenomination of
                    Some p \<Rightarrow> (if p = [] then ''0'' else p)
                  | None \<Rightarrow> ''0''))"

definition getAgentWallet :: "env \<Rightarrow> PlanDDOHelper \<Rightarrow> string option act" where
  "getAgentWallet env this =
     io_bind (loadDDO env this) (\<lambda>d.
       io_return (Option.bind d (\<lambda>d. Option.bind (publicKey d) (\<lambda>ks.
                    Option.bind (nth_opt ks 0) owner))))"

text \<open>
  \<^verbatim>\<open>
  const params = ddo?.service?.[2]?.attributes?.serviceAgreementTemplate?.conditions.find(
      (c) => c.name === "transferNFT")?.parameters;
  if (Array.isArray(params)) {
    const param = params.find((p) => p.name === "_contractAddress");
    return param?.value;
  }
  return undefined;
  \<close>
  \<^verbatim>\<open>conditions\<close> is read without \<^verbatim>\<open>?.\<close>: a template without it makes \<^verbatim>\<open>.find\<close> throw.
\<close>

definition get1155ContractAddress :: "env \<Rightarrow> PlanDDOHelper \<Rightarrow> string option act" where
  "get1155ContractAddress env this =
     io_bind (loadDDO env this) (\<lambda>d.
       case Option.bind (service2_attributes d) serviceAgreementTemplate of
         None \<Rightarrow> io_return None
       | Some template \<Rightarrow>
           (case conditions template of
              None \<Rightarrow> io_throw (Error ''Cannot read properties of undefined (reading find)'')
            | Some cs \<Rightarrow>
                (case Option.bind (find (\<lambda>c. cond_name c = ''transferNFT'') cs) cond_parameters of
                   None \<Rightarrow> io_return None
                 | Some params \<Rightarrow>
                     io_return (Option.bind (find (\<lambda>p. param_name p = ''_contractAddress'') params)
                                  param_value))))"

text \<open>
  \<^verbatim>\<open>BigInt("0x" + this.planDid.replace("did:nv:", "")).toString()\<close>: the first occurrence of
  the prefix is removed, the rest is read as a hexadecimal literal and printed in decimal.
  \<^verbatim>\<open>BigInt\<close> throws on anything else (white space around the literal, which it tolerates,
  is not modelled).
\<close>

fun replace_first :: "string \<Rightarrow> string \<Rightarrow> string \<Rightarrow> string" where
  "replace_first pat rep [] = (if pat = [] then rep else [])"
| "replace_first pat rep (c # cs) =
     (if take (length pat) (c # cs) = pat then rep @ drop (length pat) (c # cs)
      else c # replace_first pat rep cs)"

definition getTokenId :: "PlanDDOHelper \<Rightarrow> string act" where
  "getTokenId this =
     io_of (case hex_value (replace_first ''did:nv:'' [] (planDid this)) of
              Some n \<Rightarrow> Returns (string_of_nat n)
            | None \<Rightarrow> Throws (Error ''Cannot convert to a BigInt''))"

definition getMintOperator :: "PlanDDOHelper \<Rightarrow> string option act" where
  "getMintOperator this = io_return (Some ''0xd596661b11Ba7EaCA074fA59247e342214Db4D5A'')"

definition getBurnOperator :: "PlanDDOHelper \<Rightarrow> string option act" where
  "getBurnOperator this = io_return (Some ''0x5838B5512cF9f12FE9f2beccB20eb47211F9B0bc'')"

text \<open>The registry calls among the events.\<close>

fun is_GetAssetDDO :: "event \<Rightarrow> bool" where
  "is_GetAssetDDO (GetAssetDDO p r) = True"
| "is_GetAssetDDO _ = False"

definition registry_calls :: "event list \<Rightarrow> nat" where
  "registry_calls es = length (filter is_GetAssetDDO es)"

subsection \<open>Mint events: \<^verbatim>\<open>getMintParamsForPlan\<close>, \<^verbatim>\<open>findERC1155Mints\<close>\<close>

record mint_params =
  mint_contractAddress :: address
  mint_toWallet :: address
  mint_operator :: "address option"
  mint_tokenId :: string

definition getMintParamsForPlan :: "env \<Rightarrow> PlanDDOHelper \<Rightarrow> PlanDDOHelper \<Rightarrow> mint_params option act" where
  "getMintParamsForPlan env planHelper ourPlanHelper =
     io_bind (getAgentWallet env ourPlanHelper) (\<lambda>toWallet.
     io_bind (get1155ContractAddress env planHelper) (\<lambda>contractAddress.
     io_bind (getMintOperator planHelper) (\<lambda>operator.
     io_bind (getTokenId planHelper) (\<lambda>tokenId.
       if truthy contractAddress \<and> truthy toWallet then
         io_return (Some \<lparr>mint_contractAddress = the contractAddress, mint_toWallet = the toWallet,
                           mint_operator = operator, mint_tokenId = tokenId\<rparr>)
       else io_return None))))"

definition zero_address :: address where
  "zero_address = ''0x0000000000000000000000000000000000000000''"

definition findERC1155Mints ::
  "env \<Rightarrow> PlanDDOHelper \<Rightarrow> PlanDDOHelper \<Rightarrow> nat \<Rightarrow> transfer_single list act" where
  "findERC1155Mints env planHelper ourPlanHelper fromBlock =
     io_bind (getMintParamsForPlan env planHelper ourPlanHelper) (\<lambda>mintParams.
       case mintParams of
         None \<Rightarrow> io_return []
       | Some p \<Rightarrow>
           io_bind (call (QueryFilter (mint_contractAddress p) (mint_operator p) zero_address
                            (mint_toWallet p) fromBlock)
                      (\<lambda>h. queryFilter_reply env h (mint_contractAddress p) (mint_operator p)
                             zero_address (mint_toWallet p) fromBlock)) (\<lambda>logs.
             io_return
               (map (\<lambda>ev. \<lparr>txHash = transactionHash ev, event_blockNumber = blockNumber ev,
                           event_operator = map_option log_operator (args ev),
                           event_from = map_option log_from (args ev),
                           event_to = map_option log_to (args ev),
                           event_tokenId = map_option log_id (args ev),
                           event_value = map_option log_value (args ev)\<rparr>)
                  (filter (\<lambda>ev. case args ev of None \<Rightarrow> False
                                 | Some a \<Rightarrow> log_id a = mint_tokenId p) logs))))"

subsection \<open>The accessors as a family\<close>

text \<open>
  The eight accessors of the class, to state what they have in common. \<open>access\<close> calls the
  method; the two methods that return a string (\<^verbatim>\<open>getPlanPrice\<close>, \<^verbatim>\<open>getTokenId\<close>) return
  it as a present value.
\<close>

datatype accessor =
    TokenAddress | TokenSymbol | UnitPrice | AgentWallet | CreditContract
  | TokenId | MintOperator | BurnOperator

definition access :: "env \<Rightarrow> accessor \<Rightarrow> PlanDDOHelper \<Rightarrow> string option act" where
  "access env a this =
     (case a of
        TokenAddress \<Rightarrow> getTokenAddress env this
      | TokenSymbol \<Rightarrow> getTokenName env this
      | UnitPrice \<Rightarrow> io_bind (getPlanPrice env this) (\<lambda>p. io_return (Some p))
      | AgentWallet \<Rightarrow> getAgentWallet env this
      | CreditContract \<Rightarrow> get1155ContractAddress env this
      | TokenId \<Rightarrow> io_bind (getTokenId this) (\<lambda>t. io_return (Some t))
      | MintOperator \<Rightarrow> getMintOperator this
      | BurnOperator \<Rightarrow> getBurnOperator this)"

text \<open>The accessors whose method body calls \<^verbatim>\<open>loadDDO\<close>.\<close>

definition reads_descriptor :: "accessor \<Rightarrow> bool" where
  "reads_descriptor a = (a \<in> {TokenAddress, TokenSymbol, UnitPrice, AgentWallet, CreditContract})"

text \<open>The optional descriptor field an accessor reads, followed through the descriptor the
  way the accessor follows it (\<open>None\<close> where any object or field on the way is missing). The
  last three accessors read no field.\<close>

definition descriptor_field :: "accessor \<Rightarrow> ddo option \<Rightarrow> string option" where
  "descriptor_field a d =
     (case a of
        TokenAddress \<Rightarrow> Option.bind (additional_information d) erc20TokenAddress
      | TokenSymbol \<Rightarrow> Option.bind (additional_information d) symbol
      | UnitPrice \<Rightarrow> Option.bind (additional_information d) priceHighestDenomination
      | AgentWallet \<Rightarrow>
          Option.bind d (\<lambda>d. Option.bind (publicKey d) (\<lambda>ks. Option.bind (nth_opt ks 0) owner))
      | CreditContract \<Rightarrow>
          Option.bind (Option.bind (service2_attributes d) serviceAgreementTemplate) (\<lambda>t.
          Option.bind (conditions t) (\<lambda>cs.
          Option.bind (find (\<lambda>c. cond_name c = ''transferNFT'') cs) (\<lambda>c.
          Option.bind (cond_parameters c) (\<lambda>ps.
          Option.bind (find (\<lambda>p. param_name p = ''_contractAddress'') ps) param_value))))
      | _ \<Rightarrow> None)"

text \<open>What the body of an accessor that reads the descriptor computes, after \<^verbatim>\<open>loadDDO\<close>
  has returned the descriptor \<open>d\<close>.\<close>

definition computed_from :: "accessor \<Rightarrow> ddo option \<Rightarrow> string option outcome" where
  "computed_from a d =
     (case a of
        UnitPrice \<Rightarrow>
          Returns (Some (case Option.bind (additional_information d) priceHighestDenomination of
                           Some p \<Rightarrow> (if p = [] then ''0'' else p)
                         | None \<Rightarrow> ''0''))
      | CreditContract \<Rightarrow>
          (case Option.bind (service2_attributes d) serviceAgreementTemplate of
             None \<Rightarrow> Returns None
           | Some template \<Rightarrow>
               (case conditions template of
                  None \<Rightarrow> Throws (Error ''Cannot read properties of undefined (reading find)'')
                | Some cs \<Rightarrow> Returns (descriptor_field CreditContract d)))
      | _ \<Rightarrow> Returns (descriptor_field a d))"

text \<open>The descriptor a call of \<^verbatim>\<open>loadDDO\<close> in the world \<open>w\<close> gets: the one the instance
  holds, and the answer of the registry when it holds none.\<close>

definition descriptor_read :: "env \<Rightarrow> PlanDDOHelper \<Rightarrow> world \<Rightarrow> ddo option outcome" where
  "descriptor_read env this w =
     (case ddo_field w (helper_id this) of
        Some d \<Rightarrow> Returns (Some d)
      | None \<Rightarrow> getAssetDDO_reply env (events w) (planDid this))"


section \<open>SettlementProtocol: \<^verbatim>\<open>src/payments/planService.ts\<close>\<close>

definition message :: "error \<Rightarrow> string" where
  "message e = (case e of Error m \<Rightarrow> m)"

definition sendFriendlySseEvent ::
  "env \<Rightarrow> string \<Rightarrow> string \<Rightarrow> string \<Rightarrow> (string \<times> string option) list \<Rightarrow> unit act" where
  "sendFriendlySseEvent env taskId type currentStatus metadata =
     call (SendFriendlySseEvent taskId type currentStatus metadata)
       (\<lambda>h. sendFriendlySseEvent_reply env h taskId type currentStatus metadata)"

definition logMessage :: "env \<Rightarrow> string \<Rightarrow> string \<Rightarrow> string \<Rightarrow> unit act" where
  "logMessage env taskId level msg =
     call (LogMessage taskId level msg) (\<lambda>h. logMessage_reply env h taskId level msg)"

definition updateStep :: "env \<Rightarrow> string \<Rightarrow> step \<Rightarrow> nat act" where
  "updateStep env stepDid patched =
     call (UpdateStep stepDid patched) (\<lambda>h. updateStep_reply env h stepDid patched)"

text \<open>\<^verbatim>\<open>sendStepErrorAndLog\<close>: the notification is not awaited, the log entry and the
  ledger write are.\<close>

definition sendStepErrorAndLog :: "env \<Rightarrow> step \<Rightarrow> string \<Rightarrow> string \<Rightarrow> unit act" where
  "sendStepErrorAndLog env step plan errorMessage =
     io_bind (not_awaited (sendFriendlySseEvent env (task_id step) ''error'' errorMessage
                [(''planDID'', Some plan)])) (\<lambda>_.
     io_bind (logMessage env (task_id step) ''error'' errorMessage) (\<lambda>_.
     io_bind (updateStep env (did step)
                (step\<lparr>step_status := Failed_status, step_output := Some errorMessage\<rparr>)) (\<lambda>_.
     io_return ())))"

definition sendInfoAndLog ::
  "env \<Rightarrow> step \<Rightarrow> string \<Rightarrow> string \<Rightarrow> (string \<times> string option) list \<Rightarrow> unit act" where
  "sendInfoAndLog env step msg level extraData =
     io_bind (sendFriendlySseEvent env (task_id step) level msg extraData) (\<lambda>_.
     logMessage env (task_id step) ''info'' msg)"

text \<open>\<^verbatim>\<open>getAndCheckBalance\<close>: \<open>None\<close> is the \<^verbatim>\<open>null\<close> it returns after a failed query.\<close>

definition getAndCheckBalance :: "env \<Rightarrow> string \<Rightarrow> step \<Rightarrow> string \<Rightarrow> plan_balance option act" where
  "getAndCheckBalance env plan step agentName =
     io_bind (sendInfoAndLog env step
                (''Checking balance '' @
                   (if agentName \<noteq> [] then ''for '' @ agentName @ '' agent'' else []))
                ''reasoning'' [(''planDid'', Some plan)]) (\<lambda>_.
     io_catch
       (io_bind (call (GetPlanBalance plan) (\<lambda>h. getPlanBalance_reply env h plan)) (\<lambda>balanceResult.
        io_return (Some balanceResult)))
       (\<lambda>error.
          io_bind (sendStepErrorAndLog env step plan
                     (''Failed to get balance for plan '' @ plan @ '': '' @ message error)) (\<lambda>_.
          io_return None)))"

text \<open>The warning callback the retried sub-steps pass to \<^verbatim>\<open>retryOperation\<close>: it starts the
  notification and does not await it.\<close>

definition retry_warning ::
  "env \<Rightarrow> step \<Rightarrow> string \<Rightarrow> string \<Rightarrow> error \<Rightarrow> int \<Rightarrow> int \<Rightarrow> unit act" where
  "retry_warning env step plan what err attempt maxRetries =
     not_awaited (sendFriendlySseEvent env (task_id step) ''warning''
        (what @ '' (attempt '' @ string_of_int (attempt + 1) @ ''/'' @ string_of_int (maxRetries + 1)
           @ ''): '' @ message err @ ''. Retrying...'')
        [(''planDID'', Some plan)])"

text \<open>The operation \<^verbatim>\<open>handleTokenSwapIfNeeded\<close> retries for the swap: it reads the network
  id from our own descriptor and runs \<^verbatim>\<open>performSwapForPlan\<close>.\<close>

definition swap_operation ::
  "env \<Rightarrow> PlanDDOHelper \<Rightarrow> string \<Rightarrow> address \<Rightarrow> address \<Rightarrow> address \<Rightarrow> swap_result act" where
  "swap_operation env ourPlanHelper planPrice ourTokenAddress externalTokenAddress agentWallet =
     io_bind (loadDDO env ourPlanHelper) (\<lambda>ourPlanDDO.
       case Option.bind ourPlanDDO nvm_networks of
         None \<Rightarrow> io_throw (Error ''Cannot read properties of undefined'')
       | Some keys \<Rightarrow>
           performSwapForPlan env planPrice ourTokenAddress externalTokenAddress agentWallet
             (case keys of [] \<Rightarrow> None | k # _ \<Rightarrow> k))"

definition handleTokenSwapIfNeeded :: "env \<Rightarrow> PlanDDOHelper \<Rightarrow> PlanDDOHelper \<Rightarrow> step \<Rightarrow> bool act" where
  "handleTokenSwapIfNeeded env planHelper ourPlanHelper step =
     (let plan = planDid planHelper in
      io_bind (getPlanPrice env planHelper) (\<lambda>planPrice.
      io_bind (getTokenAddress env planHelper) (\<lambda>externalTokenAddress.
      io_bind (getTokenName env planHelper) (\<lambda>externalTokenName_read.
      io_bind (getTokenAddress env ourPlanHelper) (\<lambda>ourTokenAddress.
      io_bind (getTokenName env ourPlanHelper) (\<lambda>ourTokenName_read.
      io_bind (getAgentWallet env ourPlanHelper) (\<lambda>agentWallet_read.
        let externalTokenName = (case externalTokenName_read of Some s \<Rightarrow> s | None \<Rightarrow> []);
            ourTokenName = (case ourTokenName_read of Some s \<Rightarrow> s | None \<Rightarrow> []);
            agentWallet = (case agentWallet_read of Some s \<Rightarrow> s | None \<Rightarrow> [])
        in
        if \<not> truthy externalTokenAddress \<or> \<not> truthy ourTokenAddress \<or> agentWallet = [] then
          io_bind (sendStepErrorAndLog env step plan
                     (''Missing required address for token swap: '' @
                        (if \<not> truthy externalTokenAddress then ''externalTokenAddress'' else []) @ '' '' @
                        (if \<not> truthy ourTokenAddress then ''ourTokenAddress'' else []) @ '' '' @
                        (if agentWallet = [] then ''agentWallet'' else []))) (\<lambda>_.
          io_return False)
        else
          io_bind (sendInfoAndLog env step
                     (''Plan '' @ plan @ '' accepts '' @ planPrice @ '' '' @ externalTokenName @
                        ''. Checking if agent has enough balance...'')
                     ''reasoning'' []) (\<lambda>_.
          io_bind (io_catch
                     (io_bind (retryOperation
                                 (isBalanceSufficient env (the externalTokenAddress) agentWallet planPrice)
                                 2
                                 (Some (retry_warning env step plan
                                          (''Failed to check balance for '' @ externalTokenName))))
                        (\<lambda>sufficient. io_return (Some sufficient)))
                     (\<lambda>error.
                        io_bind (sendStepErrorAndLog env step plan
                                   (''Failed to check balance for '' @ externalTokenName @ '': '' @
                                      message error)) (\<lambda>_.
                        io_return None))) (\<lambda>checked.
            case checked of
              None \<Rightarrow> io_return False
            | Some sufficient \<Rightarrow>
                if sufficient then io_return True
                else
                  io_bind (sendInfoAndLog env step
                             (''Agent under plan '' @ plan @ '' accepts subscriptions in '' @
                                externalTokenName @ ''. Attempting swap. Required amount: '' @
                                planPrice @ '' '' @ externalTokenName)
                             ''reasoning'' []) (\<lambda>_.
                  io_bind (io_catch
                             (io_bind (retryOperation
                                         (swap_operation env ourPlanHelper planPrice
                                            (the ourTokenAddress) (the externalTokenAddress) agentWallet)
                                         2
                                         (Some (retry_warning env step plan ''Failed to swap tokens'')))
                                (\<lambda>swapResult. io_return (Some swapResult)))
                             (\<lambda>error.
                                io_bind (sendStepErrorAndLog env step plan
                                           (''Failed to swap '' @ ourTokenName @ '' for '' @ planPrice @
                                              '' '' @ externalTokenName @ '': '' @ message error)) (\<lambda>_.
                                io_return None))) (\<lambda>swapped.
                    case swapped of
                      None \<Rightarrow> io_return False
                    | Some swapResult \<Rightarrow>
                        if \<not> swap_success swapResult then
                          io_bind (sendStepErrorAndLog env step plan
                                     (''Failed to swap '' @ ourTokenName @ '' for '' @ planPrice @
                                        '' '' @ externalTokenName @ ''.'')) (\<lambda>_.
                          io_return False)
                        else
                          io_bind (sendInfoAndLog env step ''Swap successful'' ''transaction''
                                     [(''txHash'', swapTxHash swapResult)]) (\<lambda>_.
                          io_bind (sendInfoAndLog env step ''Transfer successful'' ''transaction''
                                     [(''txHash'', transferTxHash swapResult)]) (\<lambda>_.
                          io_return True)))))))))))))"

definition orderCreditsForPlan ::
  "env \<Rightarrow> string \<Rightarrow> step \<Rightarrow> PlanDDOHelper \<Rightarrow> PlanDDOHelper \<Rightarrow> bool act" where
  "orderCreditsForPlan env plan step planHelper ourPlanHelper =
     io_bind (getBlockNumber env) (\<lambda>fromBlock.
     io_catch
       (io_bind (retryOperation
                   (call (OrderPlan plan) (\<lambda>h. orderPlan_reply env h plan))
                   2
                   (Some (retry_warning env step plan
                            (''Failed to purchase credits for plan '' @ plan)))) (\<lambda>orderResult.
        if \<not> success orderResult then
          io_throw (Error (''Failed to purchase credits for plan '' @ plan @
                      '': Insufficient balance and failed to purchase credits...''))
        else
          io_bind (findERC1155Mints env planHelper ourPlanHelper fromBlock) (\<lambda>mintEvents.
          io_bind (if mintEvents \<noteq> [] then
                     (let mintEvent = last mintEvents;
                          credits = (case event_value mintEvent of Some v \<Rightarrow> v | None \<Rightarrow> ''undefined'')
                      in sendInfoAndLog env step
                           (''Orchestrator agent purchased '' @ credits @ '' credits for plan '' @ plan)
                           ''nvm-transaction-agent''
                           [(''txHash'', Some (txHash mintEvent)),
                            (''credits'', event_value mintEvent),
                            (''planDid'', Some plan)])
                   else sendInfoAndLog env step
                          (''Orchestrator agent purchased credits for plan '' @ plan)
                          ''reasoning'' []) (\<lambda>_.
          io_return True))))
       (\<lambda>error.
          io_bind (sendStepErrorAndLog env step plan
                     (''Failed to order credits for plan '' @ plan @
                        ''. Insufficient balance and failed to purchase credits: '' @ message error))
            (\<lambda>_. io_return False)))"

definition handleInsufficientBalance ::
  "env \<Rightarrow> PlanDDOHelper \<Rightarrow> PlanDDOHelper \<Rightarrow> step \<Rightarrow> int \<Rightarrow> bool act" where
  "handleInsufficientBalance env planHelper ourPlanHelper step requiredBalance =
     (let plan = planDid planHelper in
      io_bind (sendInfoAndLog env step
                 (''Balance checked. Insufficient balance (Minimum required: '' @
                    string_of_int requiredBalance @ ''). Attempting to purchase credits...'')
                 ''reasoning'' [(''planDid'', Some plan)]) (\<lambda>_.
      io_bind (getTokenAddress env planHelper) (\<lambda>externalTokenAddress.
      io_bind (getTokenAddress env ourPlanHelper) (\<lambda>ourTokenAddress.
      io_bind (if truthy externalTokenAddress \<and> truthy ourTokenAddress \<and>
                  toLowerCase (the externalTokenAddress) \<noteq> toLowerCase (the ourTokenAddress)
               then handleTokenSwapIfNeeded env planHelper ourPlanHelper step
               else io_return True) (\<lambda>swapSuccess.
        if \<not> swapSuccess then io_return False
        else orderCreditsForPlan env plan step planHelper ourPlanHelper)))))"

definition ensureSufficientBalance ::
  "env \<Rightarrow> PlanDDOHelper \<Rightarrow> step \<Rightarrow> int \<Rightarrow> string \<Rightarrow> bool act" where
  "ensureSufficientBalance env planHelper step requiredBalance agentName =
     (let plan = planDid planHelper in
      io_bind (getAndCheckBalance env plan step agentName) (\<lambda>balanceResult.
        case balanceResult of
          None \<Rightarrow> io_return False
        | Some b \<Rightarrow>
            if (case balance b of Some n \<Rightarrow> n < requiredBalance | None \<Rightarrow> False) \<and> \<not> isOwner b then
              io_bind (new_PlanDDOHelper (PLAN_DID env)) (\<lambda>ourPlanHelper.
              handleInsufficientBalance env planHelper ourPlanHelper step requiredBalance)
            else
              io_bind (sendInfoAndLog env step (''Sufficient balance for plan '' @ plan)
                         ''reasoning'' []) (\<lambda>_.
              io_return True)))"

subsection \<open>Observations of a settlement\<close>

fun is_GetPlanBalance :: "event \<Rightarrow> bool" where
  "is_GetPlanBalance (GetPlanBalance p r) = True"
| "is_GetPlanBalance _ = False"

fun is_OrderPlan :: "event \<Rightarrow> bool" where
  "is_OrderPlan (OrderPlan p r) = True"
| "is_OrderPlan _ = False"

fun is_QueryFilter :: "event \<Rightarrow> bool" where
  "is_QueryFilter (QueryFilter c o' f t b r) = True"
| "is_QueryFilter _ = False"

fun is_GetTransactionCount :: "event \<Rightarrow> bool" where
  "is_GetTransactionCount (GetTransactionCount a r) = True"
| "is_GetTransactionCount _ = False"

fun is_UpdateStep :: "event \<Rightarrow> bool" where
  "is_UpdateStep (UpdateStep d s r) = True"
| "is_UpdateStep _ = False"

text \<open>The step is written Failed: the ledger write of \<^verbatim>\<open>sendStepErrorAndLog\<close>.\<close>

fun writes_Failed :: "step \<Rightarrow> event \<Rightarrow> bool" where
  "writes_Failed step (UpdateStep d s r) =
     (d = did step \<and> step_status s = Failed_status \<and> step_output s \<noteq> None \<and>
      s = step\<lparr>step_status := Failed_status, step_output := step_output s\<rparr>)"
| "writes_Failed step _ = False"

text \<open>A call the environment answered with a throw.\<close>

fun query_threw :: "event \<Rightarrow> bool" where
  "query_threw (GetPlanBalance p (Throws e)) = True"
| "query_threw (QueryFilter c o' f t b (Throws e)) = True"
| "query_threw _ = False"

text \<open>The events a settlement is judged by: the plan balance query, the credit order, the
  mint-event scan, the nonce fetch that opens every swap attempt, and the ledger write.\<close>

fun notable :: "event \<Rightarrow> bool" where
  "notable (GetPlanBalance p r) = True"
| "notable (OrderPlan p r) = True"
| "notable (QueryFilter c o' f t b r) = True"
| "notable (GetTransactionCount a r) = True"
| "notable (UpdateStep d s r) = True"
| "notable _ = False"

text \<open>Bounds on the number of plan balance queries, mint-event scans, credit orders and
  nonce fetches.\<close>

definition within :: "nat \<Rightarrow> nat \<Rightarrow> nat \<Rightarrow> nat \<Rightarrow> event list \<Rightarrow> bool" where
  "within g q c t es =
     (length (filter is_GetPlanBalance es) \<le> g \<and>
      length (filter is_QueryFilter es) \<le> q \<and>
      length (filter is_OrderPlan es) \<le> c \<and>
      length (filter is_GetTransactionCount es) \<le> t)"

text \<open>The bounds hold, the step has not been written and no query has thrown.\<close>

definition quiet_upto :: "nat \<Rightarrow> nat \<Rightarrow> nat \<Rightarrow> nat \<Rightarrow> event list \<Rightarrow> bool" where
  "quiet_upto g q c t es =
     (within g q c t es \<and> filter is_UpdateStep es = [] \<and> \<not> list_ex query_threw es)"

text \<open>What a part of the settlement that reports success as a boolean has done: the bounds
  hold; when it reports failure the last thing it did was to write the step Failed; when it
  reports success it wrote nothing to the step and no query of it threw.\<close>

definition settled :: "step \<Rightarrow> nat \<Rightarrow> nat \<Rightarrow> nat \<Rightarrow> nat \<Rightarrow> bool outcome \<Rightarrow> event list \<Rightarrow> bool" where
  "settled step g q c t r es =
     (within g q c t es \<and>
      (if r = Returns False then es \<noteq> [] \<and> writes_Failed step (last es) else True) \<and>
      (if r = Returns True then filter is_UpdateStep es = [] \<and> \<not> list_ex query_threw es
       else True))"

text \<open>Events of chain reads that are none of the above and no transaction.\<close>

definition reads_only :: "event list \<Rightarrow> bool" where
  "reads_only es =
     (submitted es = [] \<and> nonce_fetches es = [] \<and> filter notable es = [] \<and>
      filter is_GetTransactionCount es = [])"


section \<open>StageHandlers: \<^verbatim>\<open>src/steps/stepHandlers.ts\<close>\<close>

text \<open>\<^verbatim>\<open>updateStepFailure\<close>: the log entry is awaited, then the step is written Failed.\<close>

definition updateStepFailure :: "env \<Rightarrow> step \<Rightarrow> string \<Rightarrow> unit act" where
  "updateStepFailure env step errorMessage =
     io_bind (logMessage env (task_id step) ''error'' errorMessage) (\<lambda>_.
     io_bind (updateStep env (did step)
                (step\<lparr>step_status := Failed_status, step_output := Some errorMessage\<rparr>)) (\<lambda>_.
     io_return ()))"

text \<open>\<^verbatim>\<open>xs.join(sep)\<close>\<close>

fun join :: "string \<Rightarrow> string list \<Rightarrow> string" where
  "join sep [] = []"
| "join sep [x] = x"
| "join sep (x # y # ys) = x @ sep @ join sep (y # ys)"

subsection \<open>\<^verbatim>\<open>handleInitStep\<close>\<close>

text \<open>The announcement is a template literal that spans seven lines, the later ones
  indented by four spaces.\<close>

definition init_announcement :: string where
  "init_announcement =
     ''I have received the user'' @ [CHR 0x27] @
     ''s request. I will now create the entire workflow pipeline.'' @ [CHR 0x0A] @
     ''    First step: Song Generator.'' @ [CHR 0x0A] @
     ''    Second step: Music Script Generator.'' @ [CHR 0x0A] @
     ''    Third step: Images Generator.'' @ [CHR 0x0A] @
     ''    Fourth step: Video Generator.'' @ [CHR 0x0A] @
     ''    Fifth step: Compile Video.'' @ [CHR 0x0A] @
     ''    Sixth step: Upload to IPFS.''"

text \<open>
  Five identifiers are generated, the request is stored, the announcement is started and not
  awaited; the log entry, the batch \<^verbatim>\<open>createSteps(step.did, step.task_id, { steps })\<close> and
  the write of the init step are awaited in this order.
\<close>

definition handleInitStep :: "env \<Rightarrow> step \<Rightarrow> unit act" where
  "handleInitStep env step =
     io_bind (call_local GenerateStepId (generateStepId_reply env)) (\<lambda>songStepId.
     io_bind (call_local GenerateStepId (generateStepId_reply env)) (\<lambda>scriptStepId.
     io_bind (call_local GenerateStepId (generateStepId_reply env)) (\<lambda>imagesStepId.
     io_bind (call_local GenerateStepId (generateStepId_reply env)) (\<lambda>videoStepId.
     io_bind (call_local GenerateStepId (generateStepId_reply env)) (\<lambda>compileStepId.
       let steps =
             [\<lparr>new_step_id = songStepId, new_task_id = task_id step, predecessor = step_id step,
               new_name = ''callSongGenerator'', is_last = False\<rparr>,
              \<lparr>new_step_id = scriptStepId, new_task_id = task_id step, predecessor = songStepId,
               new_name = ''generateMusicScript'', is_last = False\<rparr>,
              \<lparr>new_step_id = imagesStepId, new_task_id = task_id step, predecessor = scriptStepId,
               new_name = ''callImagesGenerator'', is_last = False\<rparr>,
              \<lparr>new_step_id = videoStepId, new_task_id = task_id step, predecessor = imagesStepId,
               new_name = ''callVideoGenerator'', is_last = False\<rparr>,
              \<lparr>new_step_id = compileStepId, new_task_id = task_id step, predecessor = videoStepId,
               new_name = ''compileVideo'', is_last = True\<rparr>]
       in
     io_bind (call_local (\<lambda>u :: unit. SetUserRequest (task_id step) (input_query step))
                (\<lambda>h. ())) (\<lambda>_.
     io_bind (not_awaited (sendFriendlySseEvent env (task_id step) ''reasoning''
                init_announcement [])) (\<lambda>_.
     io_bind (logMessage env (task_id step) ''info''
                (''Creating steps for task '' @ task_id step @ '': '' @
                   join '', '' (map new_name steps))) (\<lambda>_.
     io_bind (call (CreateSteps (did step) (task_id step) steps)
                (\<lambda>h. createSteps_reply env h (did step) (task_id step) steps)) (\<lambda>_.
     io_bind (updateStep env (did step)
                (step\<lparr>step_status := Completed_status, step_output := Some (input_query step)\<rparr>))
       (\<lambda>_. io_return ()))))))))))"

text \<open>The writes to the ledger among the events: batches of new steps and step updates.\<close>

fun is_CreateSteps :: "event \<Rightarrow> bool" where
  "is_CreateSteps (CreateSteps d t ss r) = True"
| "is_CreateSteps _ = False"

definition ledger_writes :: "event list \<Rightarrow> event list" where
  "ledger_writes es = filter (\<lambda>e. is_CreateSteps e \<or> is_UpdateStep e) es"

text \<open>The chain of successors of the step \<open>first\<close> of a task, under the five identifiers.\<close>

definition successor_chain ::
  "step \<Rightarrow> string \<Rightarrow> string \<Rightarrow> string \<Rightarrow> string \<Rightarrow> string \<Rightarrow> new_step list" where
  "successor_chain first s1 s2 s3 s4 s5 =
     [\<lparr>new_step_id = s1, new_task_id = task_id first, predecessor = step_id first,
       new_name = ''callSongGenerator'', is_last = False\<rparr>,
      \<lparr>new_step_id = s2, new_task_id = task_id first, predecessor = s1,
       new_name = ''generateMusicScript'', is_last = False\<rparr>,
      \<lparr>new_step_id = s3, new_task_id = task_id first, predecessor = s2,
       new_name = ''callImagesGenerator'', is_last = False\<rparr>,
      \<lparr>new_step_id = s4, new_task_id = task_id first, predecessor = s3,
       new_name = ''callVideoGenerator'', is_last = False\<rparr>,
      \<lparr>new_step_id = s5, new_task_id = task_id first, predecessor = s4,
       new_name = ''compileVideo'', is_last = True\<rparr>]"

section \<open>TaskInvoker: dispatching a task with a validator\<close>

text \<open>
  The promise a dispatch returns. It settles at most once: \<^verbatim>\<open>resolve\<close> and \<^verbatim>\<open>reject\<close> on a
  settled promise do nothing. Awaiting a promise that stays pending does not return.
\<close>

datatype 'a promise = Pending | Fulfilled 'a | Rejected error

definition resolve :: "'a \<Rightarrow> 'a promise \<Rightarrow> 'a promise" where
  "resolve v p = (case p of Pending \<Rightarrow> Fulfilled v | _ \<Rightarrow> p)"

definition reject :: "error \<Rightarrow> 'a promise \<Rightarrow> 'a promise" where
  "reject e p = (case p of Pending \<Rightarrow> Rejected e | _ \<Rightarrow> p)"

definition awaited :: "'a promise \<Rightarrow> 'a outcome" where
  "awaited p = (case p of Pending \<Rightarrow> Stalls | Fulfilled v \<Rightarrow> Returns v | Rejected e \<Rightarrow> Throws e)"

text \<open>
  The callback both dispatching functions pass to \<^verbatim>\<open>createTask\<close>:
  \<^verbatim>\<open>
  async (cbData) => {
    try {
      const taskLog = JSON.parse(cbData);
      if (taskLog.task_status === AgentExecutionStatus.Completed) {
        const artifacts = await validationFn(taskLog.task_id, ...);
        resolve(artifacts);
      } else if (taskLog.task_status === AgentExecutionStatus.Failed) {
        reject(new Error(...taskLog.task_id...));
      }
    } catch (err) { reject(err); }
  }
  \<close>
  The state it works on is the promise, the world, and, as a record of the run that the
  code does not keep, the task identifiers the validator has been invoked with. The
  callback is run to its end on one signal before the next signal is taken.
\<close>

type_synonym 'a dispatching = "'a promise \<times> world \<times> string list"

definition on_signal ::
  "(string \<Rightarrow> 'a act) \<Rightarrow> (string \<Rightarrow> error) \<Rightarrow> 'a dispatching \<Rightarrow> signal \<Rightarrow> 'a dispatching" where
  "on_signal validate failure st sig =
     (case st of (p, w, seen) \<Rightarrow>
        (case sig of
           Unparsable e \<Rightarrow> (reject e p, w, seen)
         | TaskLog taskId status \<Rightarrow>
             if status = Completed_status then
               (case validate taskId w of
                  (Returns artifacts, w1) \<Rightarrow> (resolve artifacts p, w1, seen @ [taskId])
                | (Throws e, w1) \<Rightarrow> (reject e p, w1, seen @ [taskId])
                | (Stalls, w1) \<Rightarrow> (p, w1, seen @ [taskId]))
             else if status = Failed_status then (reject (failure taskId) p, w, seen)
             else (p, w, seen)))"

text \<open>
  \<^verbatim>\<open>executeTaskWithValidation\<close>:
  \<^verbatim>\<open>
  return new Promise(async (resolve, reject) => {
    const result = await payments.query.createTask(agentDid, taskData, accessConfig, callback);
    if (result.status !== 201) {
      reject(new Error(`Error creating task: ${JSON.stringify(result.data)}`));
    }
  });
  \<close>
  When \<^verbatim>\<open>createTask\<close> throws, the executor is an \<^verbatim>\<open>async\<close> function whose rejection nobody
  handles: the promise is left as it is. \<open>ack_data\<close> is the printed \<^verbatim>\<open>result.data\<close>. The
  optional \<^verbatim>\<open>extraArgs\<close> are part of \<open>validationFn\<close>.
\<close>

definition executeTaskWithValidation_run ::
  "env \<Rightarrow> string \<Rightarrow> task_data \<Rightarrow> string \<Rightarrow> (string \<Rightarrow> string \<Rightarrow> string \<Rightarrow> step \<Rightarrow> 'a act) \<Rightarrow> step \<Rightarrow>
   world \<Rightarrow> 'a dispatching" where
  "executeTaskWithValidation_run env agentDid taskData accessConfig validationFn step w =
     (let d = createTask_reply env (events w) agentDid taskData accessConfig;
          callback = on_signal (\<lambda>taskId. validationFn taskId agentDid accessConfig step)
                       (\<lambda>taskId. Error (''Task '' @ taskId @ '' failed with status: '' @
                                           Failed_status));
          st0 = (Pending, w\<lparr>events := events w @ [CreateTask agentDid taskData accessConfig d]\<rparr>, []);
          st1 = foldl callback st0 (signals_before d);
          st2 = (case acknowledged d of
                   Returns result \<Rightarrow>
                     if ack_status result \<noteq> 201 then
                       (case st1 of (p, w1, seen) \<Rightarrow>
                          (reject (Error (''Error creating task: '' @ ack_data result)) p, w1, seen))
                     else st1
                 | Throws e \<Rightarrow> st1
                 | Stalls \<Rightarrow> st1)
      in foldl callback st2 (signals_after d))"

definition executeTaskWithValidation ::
  "env \<Rightarrow> string \<Rightarrow> task_data \<Rightarrow> string \<Rightarrow> (string \<Rightarrow> string \<Rightarrow> string \<Rightarrow> step \<Rightarrow> 'a act) \<Rightarrow> step \<Rightarrow>
   'a act" where
  "executeTaskWithValidation env agentDid taskData accessConfig validationFn step =
     (\<lambda>w. case executeTaskWithValidation_run env agentDid taskData accessConfig validationFn step w
           of (p, w', seen) \<Rightarrow> (awaited p, w'))"

subsection \<open>The validators of the image and video stages: \<^verbatim>\<open>src/steps/taskValidation.ts\<close>\<close>

record image_result =
  result_id :: "string option"
  result_subjectType :: string
  result_url :: "string option"

text \<open>\<^verbatim>\<open>const url = taskResult.data.task.output_artifacts[0]; return { id, subjectType, url };\<close>\<close>

definition validateImageGenerationTask ::
  "env \<Rightarrow> string \<Rightarrow> string \<Rightarrow> string \<Rightarrow> string option \<Rightarrow> string \<Rightarrow> image_result act" where
  "validateImageGenerationTask env taskId agentDid accessConfig subject_id subjectType =
     io_bind (call (GetTaskWithSteps agentDid taskId accessConfig)
                (\<lambda>h. getTaskWithSteps_reply env h agentDid taskId accessConfig)) (\<lambda>task.
       case view_output_artifacts task of
         None \<Rightarrow> io_throw (Error ''Cannot read properties of undefined (reading 0)'')
       | Some artifacts \<Rightarrow>
           io_return \<lparr>result_id = subject_id, result_subjectType = subjectType,
                      result_url = nth_opt artifacts 0\<rparr>)"

text \<open>\<^verbatim>\<open>return artifacts[0] ?? null;\<close> The result \<open>None\<close> is \<^verbatim>\<open>null\<close>.\<close>

definition validateVideoGenerationTask ::
  "env \<Rightarrow> string \<Rightarrow> string \<Rightarrow> string \<Rightarrow> string option act" where
  "validateVideoGenerationTask env taskId agentDid accessConfig =
     io_bind (call (GetTaskWithSteps agentDid taskId accessConfig)
                (\<lambda>h. getTaskWithSteps_reply env h agentDid taskId accessConfig)) (\<lambda>task.
       case view_output_artifacts task of
         None \<Rightarrow> io_throw (Error ''Cannot read properties of undefined (reading 0)'')
       | Some artifacts \<Rightarrow> io_return (nth_opt artifacts 0))"

subsection \<open>\<^verbatim>\<open>createVideoTaskForPrompt\<close>\<close>

text \<open>
  The setting is the one the prompt names, or else one picked with
  \<^verbatim>\<open>Math.floor(Math.random() * settings.length)\<close>; without any setting, reading
  \<^verbatim>\<open>setting.imageUrl\<close> throws, which rejects the promise the \<^verbatim>\<open>async\<close> function returns. The
  log entry is not awaited. A throw of \<^verbatim>\<open>createTask\<close> rejects the promise (\<^verbatim>\<open>.catch(reject)\<close>).
\<close>

definition video_task_data ::
  "env \<Rightarrow> prompt \<Rightarrow> setting list \<Rightarrow> character list \<Rightarrow> step \<Rightarrow> string \<Rightarrow> world \<Rightarrow> task_data option" where
  "video_task_data env promptObject sts chars step task_input_id w =
     (case (case find (\<lambda>s. setting_id s = settingId promptObject) sts of
              Some s \<Rightarrow> Some s
            | None \<Rightarrow>
                (if sts = [] then None
                 else nth_opt sts (mathRandom_reply env (events w) (length sts) mod length sts))) of
        None \<Rightarrow> None
      | Some chosen \<Rightarrow>
          (let charactersInScene_found =
                 filter (\<lambda>c. character_name c \<in> set (charactersInScene promptObject)) chars
           in Some
                \<lparr>task_name = step_name step, task_query = prompt_text promptObject,
                 task_artifacts =
                   [\<lparr>inference_type = ''text2video'', input_id = Some task_input_id,
                     images = setting_imageUrl chosen #
                              map character_imageUrl charactersInScene_found,
                     input_duration = Some (prompt_duration promptObject)\<rparr>]\<rparr>))"

definition createVideoTaskForPrompt_run ::
  "env \<Rightarrow> prompt \<Rightarrow> setting list \<Rightarrow> character list \<Rightarrow> string \<Rightarrow> step \<Rightarrow> string \<Rightarrow>
   world \<Rightarrow> string option dispatching" where
  "createVideoTaskForPrompt_run env promptObject sts chars accessConfig step task_input_id w =
     (case video_task_data env promptObject sts chars step task_input_id w of
        None \<Rightarrow> (Rejected (Error ''Cannot read properties of undefined (reading imageUrl)''), w, [])
      | Some taskData \<Rightarrow>
          (let w0 = snd (logMessage env (task_id step) ''info''
                           (''Creating video generation task for prompt: '' @ [CHR 0x22] @
                              prompt_text promptObject @ [CHR 0x22]) w);
               d = createTask_reply env (events w0) (VIDEO_GENERATOR_DID env) taskData accessConfig;
               callback = on_signal
                            (\<lambda>taskId. validateVideoGenerationTask env taskId
                                         (VIDEO_GENERATOR_DID env) accessConfig)
                            (\<lambda>taskId. Error (''Task '' @ taskId @ '' failed''));
               st0 = (Pending,
                      w0\<lparr>events := events w0 @
                            [CreateTask (VIDEO_GENERATOR_DID env) taskData accessConfig d]\<rparr>, []);
               st1 = foldl callback st0 (signals_before d);
               st2 = (case acknowledged d of
                        Returns result \<Rightarrow>
                          if ack_status result \<noteq> 201 then
                            (case st1 of (p, w1, seen) \<Rightarrow>
                               (reject (Error (''Error creating video generation task: '' @
                                                 ack_data result)) p, w1, seen))
                          else st1
                      | Throws e \<Rightarrow> (case st1 of (p, w1, seen) \<Rightarrow> (reject e p, w1, seen))
                      | Stalls \<Rightarrow> st1)
           in foldl callback st2 (signals_after d)))"

definition createVideoTaskForPrompt ::
  "env \<Rightarrow> prompt \<Rightarrow> setting list \<Rightarrow> character list \<Rightarrow> string \<Rightarrow> step \<Rightarrow> string \<Rightarrow>
   string option act" where
  "createVideoTaskForPrompt env promptObject sts chars accessConfig step task_input_id =
     (\<lambda>w. case createVideoTaskForPrompt_run env promptObject sts chars accessConfig step
                  task_input_id w
           of (p, w', seen) \<Rightarrow> (awaited p, w'))"

subsection \<open>Observations of a dispatch\<close>





section \<open>FanOutExecutor: the image stage and the video stage\<close>

text \<open>
  The sub-tasks of a stage are started by \<^verbatim>\<open>map\<close> and run concurrently. \<open>fan_out\<close> runs
  them in the order of their index, each on the world the one before has left, and gives
  the outcome of each. \<open>promise_all\<close> is \<^verbatim>\<open>Promise.all\<close> of promises with these outcomes: it
  rejects when one of them rejects (here with the error of the first in the order of the
  index), stays pending when none rejects and one never settles, and otherwise fulfils
  with all the values in the order of the index.
\<close>

fun fan_out :: "('i \<Rightarrow> 'a act) \<Rightarrow> 'i list \<Rightarrow> world \<Rightarrow> 'a outcome list \<times> world" where
  "fan_out f [] w = ([], w)"
| "fan_out f (x # xs) w =
     (case f x w of (r, w1) \<Rightarrow> (case fan_out f xs w1 of (rs, w2) \<Rightarrow> (r # rs, w2)))"

fun promise_all :: "'a outcome list \<Rightarrow> 'a list outcome" where
  "promise_all [] = Returns []"
| "promise_all (r # rs) =
     (case promise_both r (promise_all rs) of
        Returns (x, xs) \<Rightarrow> Returns (x # xs)
      | Throws e \<Rightarrow> Throws e
      | Stalls \<Rightarrow> Stalls)"

text \<open>\<^verbatim>\<open>${error.message || error}\<close>: an error without a message prints as \<^verbatim>\<open>Error\<close>.\<close>

definition message_or_error :: "error \<Rightarrow> string" where
  "message_or_error e = (if message e = [] then ''Error'' else message e)"

text \<open>\<^verbatim>\<open>results.filter((result) => result !== null)\<close>\<close>

definition not_null :: "'a option list \<Rightarrow> 'a list" where
  "not_null results = concat (map (\<lambda>r. case r of Some v \<Rightarrow> [v] | None \<Rightarrow> []) results)"

subsection \<open>\<^verbatim>\<open>handleCallVideoGenerator\<close>\<close>

text \<open>The callback of the retried video sub-task: it starts a warning and does not await
  it.\<close>

definition video_retry_warning :: "env \<Rightarrow> step \<Rightarrow> prompt \<Rightarrow> error \<Rightarrow> int \<Rightarrow> int \<Rightarrow> unit act" where
  "video_retry_warning env step promptObject err attempt maxRetries =
     not_awaited (sendFriendlySseEvent env (task_id step) ''warning''
        (''Video generation failed for prompt '' @ [CHR 0x22] @ prompt_text promptObject @
           [CHR 0x22] @ '' (attempt '' @ string_of_int (attempt + 1) @ ''/'' @
           string_of_int (maxRetries + 1) @ ''): '' @ message err @ ''. Retrying...'')
        [])"

text \<open>
  One element of \<^verbatim>\<open>videoTaskPromises\<close>:
  \<^verbatim>\<open>
  async (promptObject, index) => {
    try {
      return await retryOperation(() => createVideoTaskForPrompt(..., index.toString()), 2, cb);
    } catch (error) { return null; }
  }
  \<close>
\<close>

definition video_slot :: "env \<Rightarrow> step \<Rightarrow> scenes \<Rightarrow> string \<Rightarrow> nat \<times> prompt \<Rightarrow> string option act" where
  "video_slot env step sc accessConfig =
     (\<lambda>(index, promptObject).
        io_catch
          (retryOperation
             (createVideoTaskForPrompt env promptObject (settings sc) (characters sc)
                accessConfig step (string_of_nat index))
             2 (Some (video_retry_warning env step promptObject)))
          (\<lambda>error. io_return None))"

text \<open>
  The handler up to the start of the sub-tasks: the first element of \<^verbatim>\<open>input_artifacts\<close> is
  destructured (a missing element or one of another shape throws), the two announcements
  are not awaited, the balance of the video plan is secured for \<^verbatim>\<open>prompts.length\<close> credits
  (the handler returns when it is not), the access configuration is fetched. The result
  \<open>None\<close> is the early return.
\<close>

definition video_prepare :: "env \<Rightarrow> step \<Rightarrow> (scenes \<times> string) option act" where
  "video_prepare env step =
     (case input_artifacts step of
        Scenes sc # _ \<Rightarrow>
          io_bind (not_awaited (sendFriendlySseEvent env (task_id step) ''reasoning''
                     (''Fourth step: Video Generator. Creating video generation tasks for '' @
                        string_of_nat (length (prompts sc)) @
                        '' scenes. each executed concurrently using the same subscription plan. '' @
                        ''This task may take a while to complete.'') [])) (\<lambda>_.
          io_bind (not_awaited (logMessage env (task_id step) ''info''
                     (''Creating video generation tasks for '' @
                        string_of_nat (length (prompts sc)) @ '' scenes...''))) (\<lambda>_.
          io_bind (new_PlanDDOHelper (VIDEO_GENERATOR_PLAN_DID env)) (\<lambda>planHelper.
          io_bind (ensureSufficientBalance env planHelper step (int (length (prompts sc))) [])
            (\<lambda>hasBalance.
               if \<not> hasBalance then io_return None
               else
          io_bind (call (GetServiceAccessConfig (VIDEO_GENERATOR_DID env))
                     (\<lambda>h. getServiceAccessConfig_reply env h (VIDEO_GENERATOR_DID env)))
            (\<lambda>accessConfig.
          io_bind (not_awaited (sendFriendlySseEvent env (task_id step) ''callAgent''
                     (''Calling Video Generator Agent to generate videos for '' @
                        string_of_nat (length (prompts sc)) @ '' scenes...'') [])) (\<lambda>_.
          io_return (Some (sc, accessConfig))))))))
      | _ \<Rightarrow> io_throw (Error ''Cannot read properties of undefined''))"

text \<open>The step the video stage writes when it completes with the videos \<open>vs\<close>:
  \<^verbatim>\<open>{ ...step, step_status: Completed, cost: vs.length * 5, output: ...,
      output_artifacts: [{ ...inputArtifacts, duration, generatedVideos: vs }] }\<close>\<close>

definition completed_video_step :: "step \<Rightarrow> scenes \<Rightarrow> string list \<Rightarrow> step" where
  "completed_video_step step sc vs =
     step\<lparr>step_status := Completed_status,
          cost := Some (length vs * 5),
          step_output := Some (''Video generation completed with '' @ string_of_nat (length vs) @
                                 '' successful videos''),
          output_artifacts := Some
            [Videos \<lparr>passed_on = [(''songUrl'', songUrl sc), (''title'', title sc)] @
                                  map (\<lambda>(k, v). (k, Some v)) (extra sc),
                     videos_duration = duration sc,
                     generatedVideos = vs\<rparr>]\<rparr>"

text \<open>
  The \<^verbatim>\<open>try\<close> block and its \<^verbatim>\<open>catch\<close>, on the outcomes of the sub-tasks:
  \<^verbatim>\<open>
  try {
    const results = await Promise.all(videoTaskPromises);
    const successfulVideos = results.filter((result) => result !== null);
    const failedCount = results.length - successfulVideos.length;
    if (failedCount > 3) { sendFriendlySseEvent(...); throw new Error(...); }
    sendFriendlySseEvent(...); logMessage(...);
    await payments.query.updateStep(step.did, { ... });
  } catch (error) {
    sendFriendlySseEvent(...);
    await updateStepFailure(step, payments, `Video generation step failed: ${error.message || error}`);
  }
  \<close>
\<close>

definition video_conclusion :: "env \<Rightarrow> step \<Rightarrow> scenes \<Rightarrow> string option outcome list \<Rightarrow> unit act" where
  "video_conclusion env step sc outcomes =
     io_catch
       (io_bind (io_of (promise_all outcomes)) (\<lambda>results.
          let successfulVideos = not_null results;
              failedCount = length results - length successfulVideos
          in
          if 3 < failedCount then
            io_bind (not_awaited (sendFriendlySseEvent env (task_id step) ''error''
                       (''Video generation step failed: Too many video generation failures: '' @
                          string_of_nat failedCount @ '' videos failed after retries'') [])) (\<lambda>_.
            io_throw (Error (''Too many video generation failures: '' @
                               string_of_nat failedCount @ '' videos failed after retries'')))
          else
            io_bind (not_awaited (sendFriendlySseEvent env (task_id step) ''answer''
                       (''Video generation completed. The final set is complete and ready '' @
                          ''for merging with the audio track.'') [])) (\<lambda>_.
            io_bind (not_awaited (logMessage env (task_id step) ''info''
                       (''Video generation completed. Successfully generated '' @
                          string_of_nat (length successfulVideos) @ '' videos, '' @
                          string_of_nat failedCount @ '' failed.''))) (\<lambda>_.
            io_bind (updateStep env (did step) (completed_video_step step sc successfulVideos))
              (\<lambda>_. io_return ())))))
       (\<lambda>error.
          io_bind (not_awaited (sendFriendlySseEvent env (task_id step) ''error''
                     (''Video generation step failed: '' @ message_or_error error @
                        ''. Aborting task'') [])) (\<lambda>_.
          updateStepFailure env step
            (''Video generation step failed: '' @ message_or_error error)))"

definition handleCallVideoGenerator :: "env \<Rightarrow> step \<Rightarrow> unit act" where
  "handleCallVideoGenerator env step =
     io_bind (video_prepare env step) (\<lambda>prepared.
       case prepared of
         None \<Rightarrow> io_return ()
       | Some (sc, accessConfig) \<Rightarrow>
           (\<lambda>w. case fan_out (video_slot env step sc accessConfig)
                        (enumerate 0 (prompts sc)) w of
                   (outcomes, w1) \<Rightarrow> video_conclusion env step sc outcomes w1))"

subsection \<open>\<^verbatim>\<open>handleCallImagesGenerator\<close>\<close>

definition image_retry_warning :: "env \<Rightarrow> step \<Rightarrow> string \<Rightarrow> error \<Rightarrow> int \<Rightarrow> int \<Rightarrow> unit act" where
  "image_retry_warning env step subject err attempt maxRetries =
     not_awaited (sendFriendlySseEvent env (task_id step) ''warning''
        (''Image generation failed for '' @ subject @ '' (attempt '' @
           string_of_int (attempt + 1) @ ''/'' @ string_of_int (maxRetries + 1) @ ''): '' @
           message err @ ''. Retrying...'')
        [])"

text \<open>\<^verbatim>\<open>createImageTask(subject, subjectType, id)\<close>, with \<^verbatim>\<open>subject.imagePrompt\<close> and
  \<^verbatim>\<open>subject.id || subject.name\<close> as arguments.\<close>

definition createImageTask ::
  "env \<Rightarrow> step \<Rightarrow> string \<Rightarrow> string \<Rightarrow> string option \<Rightarrow> string \<Rightarrow> string \<Rightarrow> image_result act" where
  "createImageTask env step accessConfig imagePrompt id_or_name subjectType task_input_id =
     executeTaskWithValidation env (VIDEO_GENERATOR_DID env)
       \<lparr>task_name = step_name step, task_query = imagePrompt,
        task_artifacts =
          [\<lparr>inference_type = ''text2image'', input_id = Some task_input_id, images = [],
            input_duration = None\<rparr>]\<rparr>
       accessConfig
       (\<lambda>taskId agentDid accessCfg s.
          validateImageGenerationTask env taskId agentDid accessCfg id_or_name subjectType)
       step"

text \<open>One element of \<^verbatim>\<open>[...charactersPromises, ...settingsPromises]\<close>: the retried image task
  of a character or of a setting. Nothing catches its error.\<close>

definition image_slot ::
  "env \<Rightarrow> step \<Rightarrow> string \<Rightarrow> (nat \<times> character) + (nat \<times> setting) \<Rightarrow> image_result act" where
  "image_slot env step accessConfig subject =
     (case subject of
        Inl (index, c) \<Rightarrow>
          retryOperation
            (createImageTask env step accessConfig (character_imagePrompt c)
               (case character_id c of
                  Some i \<Rightarrow> (if i = [] then Some (character_name c) else Some i)
                | None \<Rightarrow> Some (character_name c))
               ''character'' (''character-'' @ string_of_nat index))
            2 (Some (image_retry_warning env step
                       (''character '' @ [CHR 0x22] @ character_name c @ [CHR 0x22])))
      | Inr (index, s) \<Rightarrow>
          retryOperation
            (createImageTask env step accessConfig (setting_imagePrompt s)
               (if setting_id s = [] then setting_name s else Some (setting_id s))
               ''setting'' (''setting-'' @ string_of_nat index))
            2 (Some (image_retry_warning env step
                       (''setting '' @ [CHR 0x22] @ setting_id s @ [CHR 0x22]))))"

definition image_subjects :: "scenes \<Rightarrow> ((nat \<times> character) + (nat \<times> setting)) list" where
  "image_subjects sc =
     map Inl (enumerate 0 (characters sc)) @ map Inr (enumerate 0 (settings sc))"

definition images_prepare :: "env \<Rightarrow> step \<Rightarrow> (scenes \<times> string) option act" where
  "images_prepare env step =
     (case input_artifacts step of
        Scenes sc # _ \<Rightarrow>
          io_bind (not_awaited (logMessage env (task_id step) ''info''
                     (''Creating image generation tasks for '' @
                        string_of_nat (length (characters sc)) @ '' characters and '' @
                        string_of_nat (length (settings sc)) @ '' settings...''))) (\<lambda>_.
          io_bind (not_awaited (sendFriendlySseEvent env (task_id step) ''reasoning''
                     (''Third step: Images Generator. Generating '' @
                        string_of_nat (length (characters sc)) @ '' characters and '' @
                        string_of_nat (length (settings sc)) @ '' settings...'') [])) (\<lambda>_.
          io_bind (new_PlanDDOHelper (VIDEO_GENERATOR_PLAN_DID env)) (\<lambda>planHelper.
          io_bind (ensureSufficientBalance env planHelper step
                     (int (length (characters sc) + length (settings sc))) [])
            (\<lambda>hasBalance.
               if \<not> hasBalance then io_return None
               else
          io_bind (call (GetServiceAccessConfig (VIDEO_GENERATOR_DID env))
                     (\<lambda>h. getServiceAccessConfig_reply env h (VIDEO_GENERATOR_DID env)))
            (\<lambda>accessConfig.
          io_return (Some (sc, accessConfig)))))))
      | _ \<Rightarrow> io_throw (Error ''Cannot read properties of undefined''))"

text \<open>The first statements of the \<^verbatim>\<open>try\<close> block: the announcement, and the start of all
  the sub-tasks.\<close>

definition images_started :: "env \<Rightarrow> step \<Rightarrow> scenes \<Rightarrow> string \<Rightarrow> image_result outcome list act" where
  "images_started env step sc accessConfig =
     io_bind (not_awaited (sendFriendlySseEvent env (task_id step) ''callAgent''
                (''Calling Images Generator Agent to generate '' @
                   string_of_nat (length (characters sc)) @ '' images for characters and '' @
                   string_of_nat (length (settings sc)) @ '' images for settings...'') [])) (\<lambda>_.
     (\<lambda>w. case fan_out (image_slot env step accessConfig) (image_subjects sc) w of
             (outcomes, w1) \<Rightarrow> (Returns outcomes, w1)))"

text \<open>\<^verbatim>\<open>results.forEach\<close>: the image of a result is stored in the first character with the
  name, or the first setting with the identifier, that the result carries.\<close>

fun update_first :: "('a \<Rightarrow> bool) \<Rightarrow> ('a \<Rightarrow> 'a) \<Rightarrow> 'a list \<Rightarrow> 'a list" where
  "update_first P f [] = []"
| "update_first P f (x # xs) = (if P x then f x # xs else x # update_first P f xs)"

definition store_image :: "scenes \<Rightarrow> image_result \<Rightarrow> scenes" where
  "store_image sc result =
     (if result_subjectType result = ''character'' then
        sc\<lparr>characters :=
             update_first (\<lambda>c. Some (character_name c) = result_id result)
               (\<lambda>c. c\<lparr>character_imageUrl := result_url result\<rparr>) (characters sc)\<rparr>
      else if result_subjectType result = ''setting'' then
        sc\<lparr>settings :=
             update_first (\<lambda>s. Some (setting_id s) = result_id result)
               (\<lambda>s. s\<lparr>setting_imageUrl := result_url result\<rparr>) (settings sc)\<rparr>
      else sc)"

text \<open>The rest of the \<^verbatim>\<open>try\<close> block, on the outcomes of the sub-tasks. The images attached
  to the announcement are recorded among its metadata.\<close>

definition images_conclusion :: "env \<Rightarrow> step \<Rightarrow> scenes \<Rightarrow> image_result outcome list \<Rightarrow> unit act" where
  "images_conclusion env step sc outcomes =
     io_bind (io_of (promise_all outcomes)) (\<lambda>results.
       let sc' = foldl store_image sc results;
           urls = map character_imageUrl (characters sc') @ map setting_imageUrl (settings sc');
           printed = (\<lambda>u. case u of Some v \<Rightarrow> v | None \<Rightarrow> [])
       in
       io_bind (not_awaited (sendFriendlySseEvent env (task_id step) ''answer''
                  ''All image generation tasks completed successfully.''
                  ((''mimeType'', Some ''image/png'') # map (\<lambda>u. (''part'', u)) urls))) (\<lambda>_.
       io_bind (not_awaited (logMessage env (task_id step) ''info''
                  (''All image generation tasks completed successfully: '' @ [CHR 0x0A] @
                     ''        characters:'' @ [CHR 0x0A] @ ''        '' @
                     join '', '' (map (\<lambda>c. printed (character_imageUrl c)) (characters sc')) @
                     [CHR 0x0A] @ ''        settings:'' @ [CHR 0x0A] @ ''        '' @
                     join '', '' (map (\<lambda>s. printed (setting_imageUrl s)) (settings sc'))))) (\<lambda>_.
       io_bind (updateStep env (did step)
                  (step\<lparr>step_status := Completed_status,
                        step_output := Some ''All image generation tasks completed'',
                        cost := Some (length (characters sc') + length (settings sc')),
                        output_artifacts := Some [Scenes sc']\<rparr>)) (\<lambda>_.
       io_return ()))))"

definition handleCallImagesGenerator :: "env \<Rightarrow> step \<Rightarrow> unit act" where
  "handleCallImagesGenerator env step =
     io_bind (images_prepare env step) (\<lambda>prepared.
       case prepared of
         None \<Rightarrow> io_return ()
       | Some (sc, accessConfig) \<Rightarrow>
           io_catch
             (io_bind (images_started env step sc accessConfig) (images_conclusion env step sc))
             (\<lambda>error.
                io_bind (not_awaited (sendFriendlySseEvent env (task_id step) ''error''
                           (''Image generation failed: '' @ message_or_error error @
                              ''. Aborting task'') [])) (\<lambda>_.
                updateStepFailure env step
                  (''Image generation failed: '' @ message_or_error error))))"

subsection \<open>Observations of a stage\<close>

fun is_CreateTask :: "event \<Rightarrow> bool" where
  "is_CreateTask (CreateTask a t c d) = True"
| "is_CreateTask _ = False"

section \<open>Concrete environments\<close>

text \<open>
  The runs the theorems below are checked on. In \<open>calm_env\<close> every call returns: our plan
  \<^verbatim>\<open>did:nv:0a\<close> is paid in the token \<^verbatim>\<open>0xaaa\<close>, the video plan \<^verbatim>\<open>did:nv:0b\<close> costs 100
  base units of the token \<^verbatim>\<open>0xbbb\<close> (2 decimals), the plan holds no credits, the
  wallets hold 150 base units of every token, and the next nonce of the orchestrator wallet
  is 7.
\<close>

definition initial_world :: world where
  "initial_world = \<lparr>events = [], ddo_field = (\<lambda>i. None), helpers_made = 0\<rparr>"

definition plan_ddo :: "string \<Rightarrow> string \<Rightarrow> string \<Rightarrow> string \<Rightarrow> ddo" where
  "plan_ddo tokenAddress tokenSymbol price wallet =
     \<lparr>service = Some
        [\<lparr>attributes = None\<rparr>, \<lparr>attributes = None\<rparr>,
         \<lparr>attributes = Some
            \<lparr>additionalInformation = Some
               \<lparr>erc20TokenAddress = Some tokenAddress, symbol = Some tokenSymbol,
                priceHighestDenomination = Some price\<rparr>,
             serviceAgreementTemplate = Some
               \<lparr>conditions = Some
                  [\<lparr>cond_name = ''lockPayment'', cond_parameters = Some []\<rparr>,
                   \<lparr>cond_name = ''transferNFT'',
                    cond_parameters = Some
                      [\<lparr>param_name = ''_contractAddress'', param_value = Some ''0xnft''\<rparr>]\<rparr>]\<rparr>\<rparr>\<rparr>],
      publicKey = Some [\<lparr>owner = Some wallet\<rparr>],
      nvm_networks = Some [Some 8453]\<rparr>"

definition demo_step :: step where
  "demo_step =
     \<lparr>did = ''did:step:1'', step_id = ''step-1'', task_id = ''task-1'',
      step_name = ''callVideoGenerator'', step_status = ''Pending'',
      input_query = ''a song about rain'', input_artifacts = [],
      step_output = None, output_artifacts = None, cost = None\<rparr>"

definition calm_env :: env where
  "calm_env =
     \<lparr>getPlanBalance_reply = (\<lambda>h p. Returns \<lparr>balance = Some 0, isOwner = False\<rparr>),
      orderPlan_reply = (\<lambda>h p. Returns \<lparr>success = True, agreementId = ''0xagreement''\<rparr>),
      getAssetDDO_reply =
        (\<lambda>h p. Returns (Some (if p = ''did:nv:0a'' then plan_ddo ''0xaaa'' ''OUR'' ''1'' ''0xagent''
                               else plan_ddo ''0xbbb'' ''EXT'' ''100'' ''0xthem''))),
      updateStep_reply = (\<lambda>h d s. Returns 201),
      createSteps_reply = (\<lambda>h d t ss. Returns ()),
      getServiceAccessConfig_reply = (\<lambda>h a. Returns ''access''),
      createTask_reply =
        (\<lambda>h a t c. \<lparr>signals_before = [],
                     acknowledged = Returns \<lparr>ack_status = 201, ack_data = ''{}''\<rparr>,
                     signals_after = [TaskLog ''task-9'' ''Completed'']\<rparr>),
      getTaskWithSteps_reply =
        (\<lambda>h a t c. Returns \<lparr>view_status = ''Completed'', view_output_artifacts = Some [''ipfs://clip'']\<rparr>),
      logMessage_reply = (\<lambda>h t l m. Returns ()),
      sendFriendlySseEvent_reply = (\<lambda>h t k m d. Returns ()),
      decimals_reply = (\<lambda>h a. Returns 2),
      symbol_reply = (\<lambda>h a. Returns ''TKN''),
      name_reply = (\<lambda>h a. Returns ''Token''),
      balanceOf_reply = (\<lambda>h t a. Returns 150),
      getPair_reply = (\<lambda>h a b. Returns ''0xpair''),
      getReserves_reply = (\<lambda>h p. Returns (''1000000'', ''2000000'')),
      getTransactionCount_reply = (\<lambda>h a. Returns 7),
      approve_reply = (\<lambda>h t s a n. Returns ''0xapprove''),
      swapTokensForExactTokens_reply = (\<lambda>h a m p t d n. Returns ''0xswap''),
      transfer_reply = (\<lambda>h t a v n. Returns ''0xtransfer''),
      wait_reply = (\<lambda>h t. Returns ()),
      getBlockNumber_reply = (\<lambda>h. Returns 52),
      queryFilter_reply =
        (\<lambda>h c o' f t b. Returns
           [\<lparr>transactionHash = ''0xmint'', blockNumber = 53,
             args = Some \<lparr>log_operator = ''0xd596661b11Ba7EaCA074fA59247e342214Db4D5A'',
                          log_from = ''0x0000000000000000000000000000000000000000'',
                          log_to = ''0xagent'', log_id = ''11'', log_value = ''5''\<rparr>\<rparr>]),
      dateNow_reply = (\<lambda>h. 1700000000000),
      generateStepId_reply = (\<lambda>h. ''step-'' @ string_of_nat (length h)),
      mathRandom_reply = (\<lambda>h n. 0),
      sdk_validateAndParseAddress = (\<lambda>a. Returns a),
      sdk_sortsBefore = (\<lambda>a b. Returns True),
      sdk_fromRawAmount = (\<lambda>t a. Returns a),
      sdk_maximumAmountIn = (\<lambda>a b r x. Returns ''51''),
      wallet_address = ''0xwallet'',
      PLAN_DID = ''did:nv:0a'',
      VIDEO_GENERATOR_DID = ''did:nv:video'',
      VIDEO_GENERATOR_PLAN_DID = ''did:nv:0b'',
      UNISWAP_V2_ROUTER_ADDRESS = ''0xrouter'',
      UNISWAP_V2_FACTORY_ADDRESS = ''0xfactory''\<rparr>"

text \<open>The swap has been made.\<close>

fun is_Swap :: "event \<Rightarrow> bool" where
  "is_Swap (SwapTokensForExactTokens a m p t d n r) = True"
| "is_Swap _ = False"

text \<open>
  \<open>drained_env\<close>: the wallets hold nothing of the target token before the swap, and only 40
  of the 100 base units the swap has bought are still in the orchestrator wallet when the
  transfer reads the balance (another transaction from the same wallet has spent the rest).
\<close>

definition drained_env :: env where
  "drained_env =
     calm_env\<lparr>balanceOf_reply := (\<lambda>h t a. Returns (if list_ex is_Swap h then 40 else 0))\<rparr>"


text \<open>A settlement for the video plan, as a stage handler starts it.\<close>

definition settle :: "env \<Rightarrow> int \<Rightarrow> bool act" where
  "settle env requiredBalance =
     io_bind (new_PlanDDOHelper (VIDEO_GENERATOR_PLAN_DID env)) (\<lambda>planHelper.
     ensureSufficientBalance env planHelper demo_step requiredBalance [])"

text \<open>\<open>unpriced_env\<close>: the registry knows the plan, but its descriptor carries no price,
  no token and no symbol.\<close>

definition unpriced_ddo :: ddo where
  "unpriced_ddo =
     \<lparr>service = Some
        [\<lparr>attributes = None\<rparr>, \<lparr>attributes = None\<rparr>,
         \<lparr>attributes = Some
            \<lparr>additionalInformation = Some
               \<lparr>erc20TokenAddress = None, symbol = None, priceHighestDenomination = None\<rparr>,
             serviceAgreementTemplate = None\<rparr>\<rparr>],
      publicKey = Some [\<lparr>owner = Some ''0xthem''\<rparr>],
      nvm_networks = None\<rparr>"

definition unpriced_env :: env where
  "unpriced_env = calm_env\<lparr>getAssetDDO_reply := (\<lambda>h p. Returns (Some unpriced_ddo))\<rparr>"

definition first_helper :: PlanDDOHelper where
  "first_helper = \<lparr>helper_id = 0, planDid = ''did:nv:0b''\<rparr>"



text \<open>The init step of a task, Pending.\<close>

definition init_step :: step where
  "init_step =
     \<lparr>did = ''did:step:0'', step_id = ''step-init'', task_id = ''task-1'',
      step_name = ''init'', step_status = ''Pending'',
      input_query = ''a song about rain'', input_artifacts = [],
      step_output = None, output_artifacts = None, cost = None\<rparr>"









section \<open>Theorems: RetryPolicy\<close>


lemma retry_loop_all_fail:
  "attempt \<le> R \<Longrightarrow> retry_loop f R (Some cb) attempt s = ((res, s'), its) \<Longrightarrow>
   every_attempt_failed its \<Longrightarrow> callbacks_returned its \<Longrightarrow>
   length its = nat (R - attempt) + 1 \<and> callback_attempts its = [attempt..R] \<and>
   res = operation_outcome (last its)"
proof (induction "nat (R - attempt)" arbitrary: attempt s res s' its)
  case 0
  then have eq: "attempt = R" by simp
  from 0(3,4,5) show ?case
    unfolding eq
    by (subst (asm) retry_loop.simps)
       (auto split: prod.splits outcome.splits option.splits
             simp: Let_def every_attempt_failed_def callbacks_returned_def callback_attempts_def)
next
  case (Suc n)
  then have lt: "attempt < R" and n: "n = nat (R - (attempt + 1))" by auto
  have le: "attempt + 1 \<le> R" using lt by simp
  note IH = Suc(1)[OF n le]
  from Suc(4) obtain err s1 u s2 res2 s2' its2 where
    rec: "retry_loop f R (Some cb) (attempt + 1) s2 = ((res2, s2'), its2)" and
    its: "its = \<lparr>attempt_of = attempt, operation_outcome = Throws err,
                 onError_outcome = Some (Returns u)\<rparr> # its2" and
    res: "res = res2"
    using lt Suc(5,6)
    by (subst (asm) retry_loop.simps)
       (auto split: prod.splits outcome.splits option.splits if_splits
             simp: Let_def every_attempt_failed_def callbacks_returned_def)
  from Suc(5) its have f2: "every_attempt_failed its2" by (simp add: every_attempt_failed_def)
  from Suc(6) its have c2: "callbacks_returned its2" by (simp add: callbacks_returned_def)
  from IH[OF rec f2 c2] have
    len: "length its2 = nat (R - (attempt + 1)) + 1" and
    cbs: "callback_attempts its2 = [attempt + 1..R]" and
    r2: "res2 = operation_outcome (last its2)" by auto
  from len have ne: "its2 \<noteq> []" by auto
  have "length its = nat (R - attempt) + 1" using its len lt by (simp add: nat_diff_distrib)
  moreover have "callback_attempts its = [attempt..R]"
    using its cbs lt by (simp add: callback_attempts_def upto_rec1[of attempt R])
  moreover have "res = operation_outcome (last its)" using its res r2 ne by simp
  ultimately show ?case by simp
qed

lemma always_boom_run:
  "retry_loop always_boom 2 (Some quiet_callback) 0 0 =
     ((Throws (Error ''boom''), 3),
      [\<lparr>attempt_of = 0, operation_outcome = Throws (Error ''boom''),
         onError_outcome = Some (Returns ())\<rparr>,
       \<lparr>attempt_of = 1, operation_outcome = Throws (Error ''boom''),
         onError_outcome = Some (Returns ())\<rparr>,
       \<lparr>attempt_of = 2, operation_outcome = Throws (Error ''boom''),
         onError_outcome = Some (Returns ())\<rparr>])"
  by (simp add: retry_loop.simps always_boom_def quiet_callback_def io_return_def)

text \<open>
  Claim C1, as stated, at a concrete run: the operation fails on all \<open>R + 1 = 3\<close> attempts of
  a run with \<open>R = 2\<close>; the final error is propagated, but the callback has been invoked
  three times, with the attempt indices 0, 1 and 2, and not twice with the indices 0 and 1.
\<close>

theorem retryOperation_callback_counterexample:
  "every_attempt_failed (retry_iterations always_boom 2 (Some quiet_callback) 0) \<and>
   fst (retryOperation always_boom 2 (Some quiet_callback) 0) = Throws (Error ''boom'') \<and>
   callback_attempts (retry_iterations always_boom 2 (Some quiet_callback) 0) = [0, 1, 2] \<and>
   length (callback_attempts (retry_iterations always_boom 2 (Some quiet_callback) 0)) \<noteq> 2"
  by (simp add: retry_iterations_def retryOperation_def always_boom_run
      every_attempt_failed_def callback_attempts_def)

text \<open>
  Claim C1, amended: for every operation \<open>f\<close>, retry bound \<open>R \<ge> 0\<close> and callback \<open>cb\<close>, if
  every attempt of the run fails (and the callback returns normally whenever it is invoked),
  the run makes \<open>R + 1\<close> attempts, invokes the callback once after every failed attempt,
  the last one included, so \<open>R + 1\<close> times with the attempt indices \<open>0..R\<close>, and then
  propagates the error of the last attempt.
\<close>

theorem retryOperation_all_attempts_fail:
  assumes "0 \<le> R"
    and "retry_loop f R (Some cb) 0 s = ((res, s'), its)"
    and "every_attempt_failed its"
    and "callbacks_returned its"
  shows "length its = nat R + 1 \<and>
         callback_attempts its = [0..R] \<and>
         length (callback_attempts its) = nat R + 1 \<and>
         res = operation_outcome (last its) \<and>
         (\<exists>e. res = Throws e) \<and>
         retryOperation f R (Some cb) s = (res, s')"
proof -
  from retry_loop_all_fail[OF assms] have
    len: "length its = nat R + 1" and cbs: "callback_attempts its = [0..R]" and
    res: "res = operation_outcome (last its)" by auto
  from len have ne: "its \<noteq> []" by auto
  then have "last its \<in> set its" by simp
  with assms(3) have "\<exists>e. operation_outcome (last its) = Throws e"
    by (cases "operation_outcome (last its)")
       (auto simp: every_attempt_failed_def list_all_iff split: outcome.splits)
  moreover have "length (callback_attempts its) = nat R + 1"
    using cbs assms(1) by simp
  moreover have "retryOperation f R (Some cb) s = (res, s')"
    using assms(2) by (simp add: retryOperation_def)
  ultimately show ?thesis using len cbs res by simp
qed

theorem retryOperation_all_attempts_fail_witness:
  "(0::int) \<le> 2 \<and>
   every_attempt_failed (snd (retry_loop always_boom 2 (Some quiet_callback) 0 0)) \<and>
   callbacks_returned (snd (retry_loop always_boom 2 (Some quiet_callback) 0 0)) \<and>
   length (snd (retry_loop always_boom 2 (Some quiet_callback) 0 0)) = 3 \<and>
   callback_attempts (snd (retry_loop always_boom 2 (Some quiet_callback) 0 0)) = [0, 1, 2] \<and>
   retryOperation always_boom 2 (Some quiet_callback) 0 = (Throws (Error ''boom''), 3)"
proof -
  let ?its = "snd (retry_loop always_boom 2 (Some quiet_callback) 0 0)"
  have run: "retry_loop always_boom 2 (Some quiet_callback) 0 0 = ((Throws (Error ''boom''), 3), ?its)"
    by (simp add: always_boom_run)
  have failed: "every_attempt_failed ?its"
    by (simp add: always_boom_run every_attempt_failed_def)
  have returned: "callbacks_returned ?its"
    by (simp add: always_boom_run callbacks_returned_def)
  have up: "[0..2::int] = [0, 1, 2]" by (simp add: upto_rec1)
  from retryOperation_all_attempts_fail[OF _ run failed returned] failed returned up
  show ?thesis by simp
qed

section \<open>Basic facts about runs\<close>

lemma submitted_append [simp]: "submitted (xs @ ys) = submitted xs @ submitted ys"
  by (simp add: submitted_def)

lemma submitted_Nil [simp]: "submitted [] = []"
  by (simp add: submitted_def)

lemma submitted_Cons [simp]: "submitted (e # es) = submitted_tx e @ submitted es"
  by (simp add: submitted_def)

lemma nonce_fetches_append [simp]: "nonce_fetches (xs @ ys) = nonce_fetches xs @ nonce_fetches ys"
  by (simp add: nonce_fetches_def)

lemma nonce_fetches_Nil [simp]: "nonce_fetches [] = []"
  by (simp add: nonce_fetches_def)

lemma nonce_fetches_Cons [simp]: "nonce_fetches (e # es) = nonce_fetch e @ nonce_fetches es"
  by (simp add: nonce_fetches_def)

lemmas run_defs =
  settle_def ensureSufficientBalance_def getAndCheckBalance_def handleInsufficientBalance_def
  handleTokenSwapIfNeeded_def orderCreditsForPlan_def swap_operation_def
  sendInfoAndLog_def sendStepErrorAndLog_def sendFriendlySseEvent_def logMessage_def updateStep_def
  retry_warning_def retryOperation_def retry_loop.simps
  new_PlanDDOHelper_def loadDDO_def getTokenAddress_def getTokenName_def getPlanPrice_def
  getAgentWallet_def get1155ContractAddress_def getTokenId_def getMintOperator_def
  getBurnOperator_def
  getMintParamsForPlan_def findERC1155Mints_def service2_attributes_def additional_information_def
  performSwapForPlan_def transferAmountToAgentWallet_def getPairAddress_def getPairInstance_def
  getTokenData_def isBalanceSufficient_def getBlockNumber_def io_both_def promise_both_def
  io_bind_def io_return_def io_throw_def io_catch_def io_of_def call_def call_local_def not_awaited_def
  new_Token_def isSafeInteger_def truthy_def toLowerCase_def nth_opt_def
  hex_value_def hex_digit_def message_def string_of_int_def string_of_nat.simps
  Let_def initial_world_def demo_step_def plan_ddo_def zero_address_def Failed_status_def
  added_def transfers_def

lemma added_self [simp]: "added w w = []"
  by (simp add: added_def)

lemma char_of_digits [simp]:
  "char_of (48 :: nat) = CHR ''0''" "char_of (49 :: nat) = CHR ''1''"
  "char_of (50 :: nat) = CHR ''2''" "char_of (51 :: nat) = CHR ''3''"
  "char_of (52 :: nat) = CHR ''4''" "char_of (53 :: nat) = CHR ''5''"
  "char_of (54 :: nat) = CHR ''6''" "char_of (55 :: nat) = CHR ''7''"
  "char_of (56 :: nat) = CHR ''8''" "char_of (57 :: nat) = CHR ''9''"
  by code_simp+

subsection \<open>Amount strings\<close>

lemma digit_not_sign: "is_digit c \<Longrightarrow> c \<noteq> CHR ''-'' \<and> c \<noteq> CHR ''.'' \<and> c \<noteq> CHR ''x'' \<and> c \<noteq> CHR ''X''"
  by (auto simp: is_digit_def)

lemma digits_value_Nil: "digits_value [] = 0"
  by (simp add: digits_value_def)

lemma decimal_value_digits:
  assumes "decimal_value s = Some n"
  shows "s \<noteq> []" "list_all is_digit s" "n = digits_value s"
  using assms by (auto simp: decimal_value_def split: if_splits)

lemma digits_no_marks:
  assumes "list_all is_digit s"
  shows "CHR ''-'' \<notin> set s" "CHR ''.'' \<notin> set s" "CHR ''x'' \<notin> set s" "CHR ''X'' \<notin> set s"
  using assms digit_not_sign by (auto simp: list_all_iff)

lemma digits_not_signed:
  assumes "s \<noteq> []" "list_all is_digit s"
  shows "take 1 s \<noteq> ''-''"
proof
  assume "take 1 s = ''-''"
  then have "CHR ''-'' \<in> set (take 1 s)" by simp
  then have "CHR ''-'' \<in> set s" by (rule in_set_takeD)
  with digits_no_marks(1)[OF assms(2)] show False by simp
qed

lemma digits_not_hex_literal:
  assumes "list_all is_digit s"
  shows "hex_literal s = None"
proof -
  have "take 2 s \<noteq> ''0x''"
  proof
    assume "take 2 s = ''0x''"
    then have "CHR ''x'' \<in> set (take 2 s)" by simp
    then have "CHR ''x'' \<in> set s" by (rule in_set_takeD)
    with digits_no_marks(3)[OF assms] show False by simp
  qed
  moreover have "take 2 s \<noteq> ''0X''"
  proof
    assume "take 2 s = ''0X''"
    then have "CHR ''X'' \<in> set (take 2 s)" by simp
    then have "CHR ''X'' \<in> set s" by (rule in_set_takeD)
    with digits_no_marks(4)[OF assms] show False by simp
  qed
  ultimately show ?thesis by (simp add: hex_literal_def)
qed

lemma BigNumber_from_decimal:
  assumes "decimal_value s = Some n"
  shows "BigNumber_from s = Returns (int n)"
proof -
  note d = decimal_value_digits[OF assms]
  from digits_not_signed[OF d(1,2)] digits_not_hex_literal[OF d(2)] assms
  show ?thesis by (simp add: BigNumber_from_def signed_value_def)
qed

lemma parseUnits_decimal:
  assumes "decimal_value s = Some n" and "d \<le> 256"
  shows "parseUnits s d = Returns (int (n * 10 ^ d))"
proof -
  note v = decimal_value_digits[OF assms(1)]
  have nodot: "CHR ''.'' \<notin> set s" by (rule digits_no_marks(2)[OF v(2)])
  then have whole: "takeWhile (\<lambda>c. c \<noteq> CHR ''.'') s = s"
    and rest: "dropWhile (\<lambda>c. c \<noteq> CHR ''.'') s = []"
    and dots: "filter (\<lambda>c. c = CHR ''.'') s = []"
    by (auto simp: filter_empty_conv)
  have ok: "list_all (\<lambda>c. is_digit c \<or> c = CHR ''.'') s"
    using v(2) by (auto simp: list_all_iff)
  have lone: "s \<noteq> ''.''" using nodot by auto
  from digits_not_signed[OF v(1,2)] v(1) assms(2) ok lone v(3)
  show ?thesis by (simp add: parseUnits_def Let_def whole rest dots digits_value_Nil)
qed

lemma uint256_of_nat:
  assumes "m < 2 ^ 256"
  shows "uint256 (int m) = Returns m"
  using assms unfolding uint256_def by simp

lemma amount_facts [simp]:
  "BigNumber_from ''100'' = Returns 100"
  "parseUnits ''100'' 2 = Returns 10000"
  "uint256 10000 = Returns 10000"
  "decimal_value ''100'' = Some 100"
proof -
  show d: "decimal_value ''100'' = Some 100"
    by (simp add: decimal_value_def digits_value_def is_digit_def)
  from BigNumber_from_decimal[OF d] show "BigNumber_from ''100'' = Returns 100" by simp
  from parseUnits_decimal[OF d, of 2] show "parseUnits ''100'' 2 = Returns 10000" by simp
  show "uint256 10000 = Returns 10000" by (simp add: uint256_def)
qed

section \<open>Theorems: chain access\<close>

text \<open>
  Claim C10, as stated, at the amount \<^verbatim>\<open>"1.5"\<close>: \<^verbatim>\<open>parseUnits("1.5", 2)\<close> is 150 base units and
  the wallet holds 150, but the guard \<^verbatim>\<open>balance.lt("1.5")\<close> throws on the string: the call
  throws after the balance read, it neither returns \<^verbatim>\<open>{ success: false }\<close> nor submits a
  transfer, and the decimals are never read.
\<close>

theorem transferAmountToAgentWallet_fractional_counterexample:
  "parseUnits ''1.5'' 2 = Returns 150 \<and>
   balanceOf_reply calm_env (events initial_world) ''0xbbb'' ''0xwallet'' = Returns 150 \<and>
   (\<exists>w'. transferAmountToAgentWallet calm_env ''0xbbb'' ''0xwallet'' ''0xagent'' ''1.5'' (Some 9)
            initial_world = (Throws (Error ''invalid BigNumber string''), w') \<and>
         added initial_world w' = [BalanceOf ''0xbbb'' ''0xwallet'' (Returns 150)] \<and>
         transfers (added initial_world w') = [])"
proof -
  have p: "parseUnits ''1.5'' 2 = Returns 150"
    by (simp add: parseUnits_def Let_def digits_value_def is_digit_def)
  have b: "BigNumber_from ''1.5'' = Throws (Error ''invalid BigNumber string'')"
    by (simp add: BigNumber_from_def signed_value_def hex_literal_def decimal_value_def
        is_digit_def)
  have r: "\<exists>w'. transferAmountToAgentWallet calm_env ''0xbbb'' ''0xwallet'' ''0xagent'' ''1.5''
                   (Some 9) initial_world = (Throws (Error ''invalid BigNumber string''), w') \<and>
         added initial_world w' = [BalanceOf ''0xbbb'' ''0xwallet'' (Returns 150)] \<and>
         transfers (added initial_world w') = []"
    by (simp add: transferAmountToAgentWallet_def io_bind_def io_of_def call_def Let_def b
        added_def transfers_def initial_world_def calm_env_def)
  have bal: "balanceOf_reply calm_env (events initial_world) ''0xbbb'' ''0xwallet'' = Returns 150"
    by (simp add: calm_env_def)
  from p bal r show ?thesis by (intro conjI)
qed

text \<open>
  Claim C10, amended. Let the balance read of a call of \<^verbatim>\<open>transferAmountToAgentWallet\<close> with
  the amount string \<open>a\<close> return \<open>b\<close> base units.
  \<^item> The call returns \<^verbatim>\<open>{ success: false }\<close> without submitting a transfer exactly when
    \<^verbatim>\<open>BigNumber.from(a)\<close> reads an integer \<open>n\<close> and \<open>b < n\<close>: the guard compares the base-unit
    balance with the unscaled amount.
  \<^item> When \<^verbatim>\<open>BigNumber.from(a)\<close> throws (as on \<^verbatim>\<open>"1.5"\<close>), the call throws that error and
    nothing but the balance read has happened.
  \<^item> When \<open>a\<close> is a decimal integer string of value \<open>n \<le> b\<close>, the next call is the read of
    the token's decimals; when that returns \<open>d\<close> (a \<^verbatim>\<open>uint8\<close>, and \<open>n * 10 ^ d\<close> a
    \<^verbatim>\<open>uint256\<close>), the call after it is the one transfer that is submitted: it moves
    \<open>n * 10 ^ d\<close> base units of the token to the agent wallet under the given nonce. The call
    returns only if that transaction was accepted, and then with success and its hash; it
    does return so when the wait for the transaction returns.
  \<^item> Whatever \<open>a\<close> is, a transfer is submitted only after the guard has let \<open>a\<close> pass and the
    decimals \<open>d\<close> have been read, and it moves \<^verbatim>\<open>parseUnits(a, d)\<close> base units.
\<close>

theorem transferAmountToAgentWallet_guard_unscaled:
  assumes run: "transferAmountToAgentWallet env tokenAddress signer agentWallet a nonce w = (r, w')"
    and bal: "balanceOf_reply env (events w) tokenAddress signer = Returns b"
  shows "((r = Returns \<lparr>transfer_success = False, transfer_txHash = None\<rparr> \<and>
            transfers (added w w') = []) \<longleftrightarrow>
          (\<exists>n. BigNumber_from a = Returns n \<and> int b < n)) \<and>
         (\<forall>e. BigNumber_from a = Throws e \<longrightarrow>
            r = Throws e \<and> added w w' = [BalanceOf tokenAddress signer (Returns b)]) \<and>
         (\<forall>n d. decimal_value a = Some n \<and> n \<le> b \<and>
                 decimals_reply env (events w @ [BalanceOf tokenAddress signer (Returns b)])
                   tokenAddress = Returns d \<and>
                 d \<le> 255 \<and> n * 10 ^ d < 2 ^ 256 \<longrightarrow>
            (\<exists>txr. take 3 (added w w') =
                      [BalanceOf tokenAddress signer (Returns b),
                       Decimals tokenAddress (Returns d),
                       Transfer tokenAddress agentWallet (n * 10 ^ d) nonce txr] \<and>
                    transfers (added w w') =
                      [Transfer tokenAddress agentWallet (n * 10 ^ d) nonce txr] \<and>
                    (\<forall>res. r = Returns res \<longrightarrow>
                       (\<exists>h. txr = Returns h \<and>
                            res = \<lparr>transfer_success = True, transfer_txHash = Some h\<rparr>)) \<and>
                    (\<forall>h. txr = Returns h \<and> Wait h (Returns ()) \<in> set (added w w') \<longrightarrow>
                       r = Returns \<lparr>transfer_success = True, transfer_txHash = Some h\<rparr>))) \<and>
         (\<forall>t g v k x. Transfer t g v k x \<in> set (added w w') \<longrightarrow>
            t = tokenAddress \<and> g = agentWallet \<and> k = nonce \<and>
            transfers (added w w') = [Transfer t g v k x] \<and>
            (\<exists>n d. BigNumber_from a = Returns n \<and> n \<le> int b \<and>
                    decimals_reply env (events w @ [BalanceOf tokenAddress signer (Returns b)])
                      tokenAddress = Returns d \<and>
                    parseUnits a d = Returns (int v)))"
proof -
  have guard: "(r = Returns \<lparr>transfer_success = False, transfer_txHash = None\<rparr> \<and>
            transfers (added w w') = []) \<longleftrightarrow>
          (\<exists>n. BigNumber_from a = Returns n \<and> int b < n)"
    using run bal unfolding transferAmountToAgentWallet_def
    by (auto simp: io_bind_def call_def io_of_def io_return_def Let_def added_def transfers_def
          split: outcome.splits if_splits prod.splits)
  have thrown: "\<forall>e. BigNumber_from a = Throws e \<longrightarrow>
            r = Throws e \<and> added w w' = [BalanceOf tokenAddress signer (Returns b)]"
    using run bal unfolding transferAmountToAgentWallet_def
    by (auto simp: io_bind_def call_def io_of_def io_return_def Let_def added_def
          split: outcome.splits if_splits prod.splits)
  have scaled: "\<exists>txr. take 3 (added w w') =
                      [BalanceOf tokenAddress signer (Returns b),
                       Decimals tokenAddress (Returns d),
                       Transfer tokenAddress agentWallet (n * 10 ^ d) nonce txr] \<and>
                    transfers (added w w') =
                      [Transfer tokenAddress agentWallet (n * 10 ^ d) nonce txr] \<and>
                    (\<forall>res. r = Returns res \<longrightarrow>
                       (\<exists>h. txr = Returns h \<and>
                            res = \<lparr>transfer_success = True, transfer_txHash = Some h\<rparr>)) \<and>
                    (\<forall>h. txr = Returns h \<and> Wait h (Returns ()) \<in> set (added w w') \<longrightarrow>
                       r = Returns \<lparr>transfer_success = True, transfer_txHash = Some h\<rparr>)"
    if a: "decimal_value a = Some n" and le: "n \<le> b"
      and dec: "decimals_reply env (events w @ [BalanceOf tokenAddress signer (Returns b)])
                  tokenAddress = Returns d"
      and d: "d \<le> 255" and fits: "n * 10 ^ d < 2 ^ 256" for n d
  proof -
    have pu: "parseUnits a d = Returns (int (n * 10 ^ d))"
      using parseUnits_decimal[OF a, of d] d by simp
    have enc: "uint256 (int n * 10 ^ d) = Returns (n * 10 ^ d)"
      using uint256_of_nat[OF fits] by simp
    show ?thesis
      using run bal le dec unfolding transferAmountToAgentWallet_def
      by (auto simp: io_bind_def call_def io_of_def io_return_def Let_def added_def transfers_def
            BigNumber_from_decimal[OF a] pu enc
            split: outcome.splits if_splits prod.splits)
  qed
  have only: "\<forall>t g v k x. Transfer t g v k x \<in> set (added w w') \<longrightarrow>
            t = tokenAddress \<and> g = agentWallet \<and> k = nonce \<and>
            transfers (added w w') = [Transfer t g v k x] \<and>
            (\<exists>n d. BigNumber_from a = Returns n \<and> n \<le> int b \<and>
                    decimals_reply env (events w @ [BalanceOf tokenAddress signer (Returns b)])
                      tokenAddress = Returns d \<and>
                    parseUnits a d = Returns (int v))"
    using run bal unfolding transferAmountToAgentWallet_def
    by (auto simp: io_bind_def call_def io_of_def io_return_def Let_def added_def transfers_def
          uint256_def split: outcome.splits if_splits prod.splits)
  from guard thrown scaled only show ?thesis by blast
qed

text \<open>In \<open>calm_env\<close> the wallet holds 150 base units and the token has 2 decimals: the guard
  lets the amount \<^verbatim>\<open>"100"\<close> pass (\<open>100 \<le> 150\<close>) and the transfer moves \<open>100 * 10^2 = 10000\<close>
  base units, more than the balance the guard has read.\<close>

theorem transferAmountToAgentWallet_guard_unscaled_witness:
  "decimal_value ''100'' = Some 100 \<and>
   balanceOf_reply calm_env (events initial_world) ''0xbbb'' ''0xwallet'' = Returns 150 \<and>
   decimals_reply calm_env (events initial_world @ [BalanceOf ''0xbbb'' ''0xwallet'' (Returns 150)])
     ''0xbbb'' = Returns 2 \<and>
   (100 :: nat) \<le> 150 \<and> (150 :: nat) < 100 * 10 ^ 2 \<and>
   (\<exists>w'. transferAmountToAgentWallet calm_env ''0xbbb'' ''0xwallet'' ''0xagent'' ''100'' (Some 9)
            initial_world =
          (Returns \<lparr>transfer_success = True, transfer_txHash = Some ''0xtransfer''\<rparr>, w') \<and>
        take 3 (added initial_world w') =
          [BalanceOf ''0xbbb'' ''0xwallet'' (Returns 150), Decimals ''0xbbb'' (Returns 2),
           Transfer ''0xbbb'' ''0xagent'' (100 * 10 ^ 2) (Some 9) (Returns ''0xtransfer'')] \<and>
        transfers (added initial_world w') =
          [Transfer ''0xbbb'' ''0xagent'' (100 * 10 ^ 2) (Some 9) (Returns ''0xtransfer'')])"
proof -
  define w1 where "w1 = snd (transferAmountToAgentWallet calm_env ''0xbbb'' ''0xwallet'' ''0xagent''
                               ''100'' (Some 9) initial_world)"
  have a: "decimal_value ''100'' = Some 100" by simp
  have bal: "balanceOf_reply calm_env (events initial_world) ''0xbbb'' ''0xwallet'' = Returns 150"
    by (simp add: calm_env_def)
  have dec: "decimals_reply calm_env
               (events initial_world @ [BalanceOf ''0xbbb'' ''0xwallet'' (Returns 150)]) ''0xbbb'' =
             Returns 2"
    by (simp add: calm_env_def)
  have run: "transferAmountToAgentWallet calm_env ''0xbbb'' ''0xwallet'' ''0xagent'' ''100'' (Some 9)
               initial_world =
             (Returns \<lparr>transfer_success = True, transfer_txHash = Some ''0xtransfer''\<rparr>, w1)"
    unfolding w1_def by (simp add: run_defs calm_env_def)
  have le: "(100 :: nat) \<le> 150" and lt: "(150 :: nat) < 100 * 10 ^ 2" by simp_all
  have fits: "(100 :: nat) * 10 ^ 2 < 2 ^ 256" by simp
  from transferAmountToAgentWallet_guard_unscaled[OF run bal] a le dec fits
  obtain txr where
    t3: "take 3 (added initial_world w1) =
          [BalanceOf ''0xbbb'' ''0xwallet'' (Returns 150), Decimals ''0xbbb'' (Returns 2),
           Transfer ''0xbbb'' ''0xagent'' (100 * 10 ^ 2) (Some 9) txr]"
    and tr: "transfers (added initial_world w1) =
          [Transfer ''0xbbb'' ''0xagent'' (100 * 10 ^ 2) (Some 9) txr]"
    and ret: "\<exists>h. txr = Returns h \<and>
                \<lparr>transfer_success = True, transfer_txHash = Some ''0xtransfer''\<rparr> =
                \<lparr>transfer_success = True, transfer_txHash = Some h\<rparr>"
    by (elim conjE allE[of _ 100] allE[of _ 2]) auto
  from ret have "txr = Returns ''0xtransfer''" by auto
  with t3 tr run a bal dec le lt show ?thesis
    by (intro conjI exI[of _ w1]) simp_all
qed

subsection \<open>Nonce sequencing\<close>

lemma reads_only_append: "reads_only xs \<Longrightarrow> reads_only ys \<Longrightarrow> reads_only (xs @ ys)"
  by (simp add: reads_only_def)

lemma io_both_reads:
  assumes "io_both m1 m2 w = (r, w')"
    and "\<And>a w1. m1 w = (a, w1) \<Longrightarrow> \<exists>es. events w1 = events w @ es \<and> reads_only es"
    and "\<And>w1 b w2. m2 w1 = (b, w2) \<Longrightarrow> \<exists>es. events w2 = events w1 @ es \<and> reads_only es"
  shows "\<exists>es. events w' = events w @ es \<and> reads_only es"
proof -
  obtain a w1 where m1: "m1 w = (a, w1)" by (cases "m1 w") auto
  obtain b w2 where m2: "m2 w1 = (b, w2)" by (cases "m2 w1") auto
  from assms(1) m1 m2 have w': "w' = w2" by (simp add: io_both_def)
  from assms(2)[OF m1] obtain es1 where e1: "events w1 = events w @ es1" "reads_only es1" by auto
  from assms(3)[OF m2] obtain es2 where e2: "events w2 = events w1 @ es2" "reads_only es2" by auto
  show ?thesis using e1 e2 w' by (intro exI[of _ "es1 @ es2"]) (simp add: reads_only_append)
qed

lemma call_reads:
  "call ev reply w = (r, w') \<Longrightarrow> submitted_tx (ev r) = [] \<Longrightarrow> nonce_fetch (ev r) = [] \<Longrightarrow>
   \<not> notable (ev r) \<Longrightarrow> \<not> is_GetTransactionCount (ev r) \<Longrightarrow>
   \<exists>es. events w' = events w @ es \<and> reads_only es"
  by (auto simp: call_def Let_def reads_only_def intro!: exI[of _ "[ev r]"])

lemma getTokenData_reads:
  assumes "getTokenData env a n w = (r, w')"
  shows "\<exists>es. events w' = events w @ es \<and> reads_only es"
proof -
  let ?m = "io_both (call (Decimals a) (\<lambda>h. decimals_reply env h a))
          (io_both (call (Symbol a) (\<lambda>h. symbol_reply env h a))
             (call (TokenName a) (\<lambda>h. name_reply env h a)))"
  obtain r1 w1 where m: "?m w = (r1, w1)" by (cases "?m w") auto
  have q: "\<exists>es. events w1 = events w @ es \<and> reads_only es"
    by (rule io_both_reads[OF m]) (auto elim!: io_both_reads call_reads)
  from assms m have "events w' = events w1"
    by (auto simp: getTokenData_def io_bind_def io_of_def split: outcome.splits prod.splits)
  with q show ?thesis by auto
qed

lemma tokens_reads:
  assumes "io_both (getTokenData env a n) (getTokenData env b m) w = (r, w')"
  shows "\<exists>es. events w' = events w @ es \<and> reads_only es"
  by (rule io_both_reads[OF assms]) (auto elim!: getTokenData_reads)

lemma getPairAddress_reads:
  assumes "getPairAddress env ta tb w = (r, w')"
  shows "\<exists>es. events w' = events w @ es \<and> reads_only es"
  using assms
  by (auto simp: getPairAddress_def io_bind_def io_of_def call_def Let_def reads_only_def
      split: outcome.splits prod.splits if_splits)

lemma getPairInstance_reads:
  assumes "getPairInstance env p ta tb w = (r, w')"
  shows "\<exists>es. events w' = events w @ es \<and> reads_only es"
  using assms
  by (auto simp: getPairInstance_def io_bind_def io_of_def io_return_def call_def Let_def
      reads_only_def split: outcome.splits prod.splits if_splits)

lemma transfer_events:
  assumes "transferAmountToAgentWallet env t s a amt nonce w = (r, w')"
  shows "\<exists>es. events w' = events w @ es \<and> nonce_fetches es = [] \<and> filter notable es = [] \<and>
           filter is_GetTransactionCount es = [] \<and>
           (submitted es = [] \<and> (\<forall>res. r = Returns res \<longrightarrow> transfer_txHash res = None) \<or>
            submitted es = [(TransferTx, nonce)] \<and>
              (\<forall>res. r = Returns res \<longrightarrow> transfer_txHash res \<noteq> None))"
  using assms unfolding transferAmountToAgentWallet_def
  by (auto simp: io_bind_def call_def io_of_def io_return_def Let_def
        split: outcome.splits if_splits prod.splits)

lemma performSwapForPlan_effects:
  assumes run: "performSwapForPlan env requiredAmount ourTokenAddress externalTokenAddress
                  agentWallet networkId w = (r, w')"
  shows "\<exists>es. events w' = events w @ es \<and>
           nonce_discipline es \<and>
           filter notable es = filter is_GetTransactionCount es \<and>
           length (filter is_GetTransactionCount es) \<le> 1 \<and>
           (\<forall>res. r = Returns res \<longrightarrow>
              (\<exists>n. nonce_fetches es = [Returns n] \<and>
                 submitted es =
                   [(ApproveTx, Some n), (SwapTx, Some (n + 1))] @
                   (case transferTxHash res of None \<Rightarrow> []
                    | Some h \<Rightarrow> [(TransferTx, Some (n + 2))])))"
  using run unfolding performSwapForPlan_def
  apply (simp add: io_catch_def io_bind_def io_of_def io_return_def io_throw_def call_def
        call_local_def Let_def
        split: prod.splits outcome.splits)
  apply (auto simp: nonce_discipline_def consecutive_from_def reads_only_def
        dest!: tokens_reads getPairAddress_reads getPairInstance_reads transfer_events)
  done

text \<open>
  Claim C7: in every run of \<^verbatim>\<open>performSwapForPlan\<close> the nonce is fetched at most once, nothing
  is submitted unless that fetch returned a value \<open>n\<close>, and the transactions submitted are, in
  this order, approve with nonce \<open>n\<close>, swap with \<open>n + 1\<close>, transfer with \<open>n + 2\<close> (a run that
  stops early has submitted an initial part of them). A run that returns has fetched the
  nonce exactly once and has submitted approve and swap, and the transfer as well when it
  reports a transfer hash.
\<close>

theorem performSwapForPlan_nonce_sequence:
  assumes run: "performSwapForPlan env requiredAmount ourTokenAddress externalTokenAddress
                  agentWallet networkId w = (r, w')"
  shows "nonce_discipline (added w w') \<and>
         (\<forall>res. r = Returns res \<longrightarrow>
            (\<exists>n. nonce_fetches (added w w') = [Returns n] \<and>
               submitted (added w w') =
                 [(ApproveTx, Some n), (SwapTx, Some (n + 1))] @
                 (case transferTxHash res of None \<Rightarrow> [] | Some h \<Rightarrow> [(TransferTx, Some (n + 2))])))"
proof -
  from performSwapForPlan_effects[OF run] obtain es where
    ev: "events w' = events w @ es" and
    rest: "nonce_discipline es"
      "\<forall>res. r = Returns res \<longrightarrow>
         (\<exists>n. nonce_fetches es = [Returns n] \<and>
            submitted es =
              [(ApproveTx, Some n), (SwapTx, Some (n + 1))] @
              (case transferTxHash res of None \<Rightarrow> [] | Some h \<Rightarrow> [(TransferTx, Some (n + 2))]))"
    by blast
  from ev have "added w w' = es" by (simp add: added_def)
  with rest show ?thesis by simp
qed

theorem performSwapForPlan_nonce_sequence_witness:
  "\<exists>w'. performSwapForPlan calm_env ''100'' ''0xaaa'' ''0xbbb'' ''0xagent'' (Some 8453) initial_world =
          (Returns \<lparr>swap_success = True, swapTxHash = Some ''0xswap'',
                    transferTxHash = Some ''0xtransfer''\<rparr>, w') \<and>
        nonce_discipline (added initial_world w') \<and>
        nonce_fetches (added initial_world w') = [Returns 7] \<and>
        submitted (added initial_world w') =
          [(ApproveTx, Some 7), (SwapTx, Some 8), (TransferTx, Some 9)]"
proof -
  define w1 where "w1 = snd (performSwapForPlan calm_env ''100'' ''0xaaa'' ''0xbbb'' ''0xagent''
                               (Some 8453) initial_world)"
  have run: "performSwapForPlan calm_env ''100'' ''0xaaa'' ''0xbbb'' ''0xagent'' (Some 8453)
               initial_world =
             (Returns \<lparr>swap_success = True, swapTxHash = Some ''0xswap'',
                       transferTxHash = Some ''0xtransfer''\<rparr>, w1)"
    unfolding w1_def by (simp add: run_defs calm_env_def)
  have fetched: "nonce_fetches (added initial_world w1) = [Returns 7]"
    unfolding w1_def by (simp add: run_defs calm_env_def)
  from performSwapForPlan_nonce_sequence[OF run] have
    disc: "nonce_discipline (added initial_world w1)" and
    "\<exists>n. nonce_fetches (added initial_world w1) = [Returns n] \<and>
         submitted (added initial_world w1) =
           [(ApproveTx, Some n), (SwapTx, Some (n + 1)), (TransferTx, Some (n + 2))]"
    by auto
  with fetched have sub: "submitted (added initial_world w1) =
      [(ApproveTx, Some 7), (SwapTx, Some 8), (TransferTx, Some 9)]"
    by auto
  show ?thesis
    using run disc fetched sub by (intro exI[of _ w1] conjI)
qed

section \<open>Theorems: PlanAccount\<close>

lemma registry_calls_simps [simp]:
  "registry_calls [] = 0"
  "registry_calls (e # es) = (if is_GetAssetDDO e then 1 else 0) + registry_calls es"
  "registry_calls (xs @ ys) = registry_calls xs + registry_calls ys"
  by (simp_all add: registry_calls_def)

lemma loadDDO_run:
  assumes "loadDDO env this w = (r, w')"
  shows "(ddo_field w (helper_id this) \<noteq> None \<longrightarrow>
            w' = w \<and> r = Returns (ddo_field w (helper_id this))) \<and>
         (ddo_field w (helper_id this) = None \<longrightarrow>
            (\<exists>reply. events w' = events w @ [GetAssetDDO (planDid this) reply] \<and> r = reply)) \<and>
         (\<forall>d. r = Returns d \<longrightarrow> ddo_field w' (helper_id this) = d)"
  using assms
  by (auto simp: loadDDO_def io_bind_def call_def Let_def split: option.splits outcome.splits)

lemma loadDDO_cached:
  "ddo_field w (helper_id this) = Some d \<Longrightarrow> loadDDO env this w = (Returns (Some d), w)"
  by (simp add: loadDDO_def)

lemma access_computed:
  assumes "reads_descriptor a"
  shows "access env a this w =
           (case loadDDO env this w of
              (Returns d, w') \<Rightarrow> (computed_from a d, w')
            | (Throws e, w') \<Rightarrow> (Throws e, w')
            | (Stalls, w') \<Rightarrow> (Stalls, w'))"
proof (cases a)
  case TokenAddress
  then show ?thesis
    by (simp add: access_def getTokenAddress_def io_bind_def io_return_def computed_from_def
        descriptor_field_def split: prod.splits outcome.splits)
next
  case TokenSymbol
  then show ?thesis
    by (simp add: access_def getTokenName_def io_bind_def io_return_def computed_from_def
        descriptor_field_def split: prod.splits outcome.splits)
next
  case UnitPrice
  then show ?thesis
    by (simp add: access_def getPlanPrice_def io_bind_def io_return_def computed_from_def
        split: prod.splits outcome.splits)
next
  case AgentWallet
  then show ?thesis
    by (simp add: access_def getAgentWallet_def io_bind_def io_return_def computed_from_def
        descriptor_field_def split: prod.splits outcome.splits)
next
  case CreditContract
  have field: "\<And>d t cs. Option.bind (service2_attributes d) serviceAgreementTemplate = Some t \<Longrightarrow>
      conditions t = Some cs \<Longrightarrow>
      descriptor_field CreditContract d =
        (case Option.bind (find (\<lambda>c. cond_name c = ''transferNFT'') cs) cond_parameters of
           None \<Rightarrow> None
         | Some params \<Rightarrow>
             Option.bind (find (\<lambda>p. param_name p = ''_contractAddress'') params) param_value)"
    by (simp add: descriptor_field_def split: option.splits Option.bind_splits)
  show ?thesis
    unfolding CreditContract access_def get1155ContractAddress_def io_bind_def
    by (simp add: io_return_def io_throw_def computed_from_def field
        split: prod.splits outcome.splits option.splits)
qed (use assms in \<open>simp_all add: reads_descriptor_def\<close>)

lemma computed_from_field:
  assumes "computed_from a d = Returns v"
  shows "v = (if a = UnitPrice
              then Some (case descriptor_field a d of
                           Some p \<Rightarrow> (if p = [] then ''0'' else p) | None \<Rightarrow> ''0'')
              else descriptor_field a d)"
proof (cases "a = CreditContract")
  case True
  with assms show ?thesis
    by (cases "service2_attributes d")
       (auto simp: computed_from_def descriptor_field_def split: option.splits)
next
  case False
  with assms show ?thesis
    by (cases a) (auto simp: computed_from_def descriptor_field_def split: option.splits)
qed

lemma access_pure:
  assumes "\<not> reads_descriptor a"
  shows "\<exists>r. \<forall>w. access env a this w = (r, w)"
  using assms
  by (cases a)
     (auto simp: reads_descriptor_def access_def getTokenId_def getMintOperator_def
        getBurnOperator_def io_bind_def io_of_def io_return_def split: outcome.splits option.splits)

text \<open>
  Claim C8, as stated, at a concrete descriptor: the plan is known to the registry but its
  descriptor has no price field; the unit-price accessor does not return an absent value
  but the stand-in \<^verbatim>\<open>"0"\<close>. And the first access to the token id fetches nothing.
\<close>

theorem PlanDDOHelper_default_price_counterexample:
  "(\<exists>w'. access unpriced_env UnitPrice first_helper initial_world = (Returns (Some ''0''), w') \<and>
         ddo_field w' (helper_id first_helper) = Some unpriced_ddo \<and>
         descriptor_field UnitPrice (Some unpriced_ddo) = None) \<and>
   access unpriced_env TokenId first_helper initial_world = (Returns (Some ''11''), initial_world)"
  by (simp add: access_def run_defs unpriced_env_def calm_env_def first_helper_def
      descriptor_field_def unpriced_ddo_def)

text \<open>
  Claim C8, amended. For every accessor of a \<^verbatim>\<open>PlanDDOHelper\<close> instance and every call of it:
  \<^item> the call makes at most one registry call; the token id, mint operator and burn operator
    accessors make none and change nothing;
  \<^item> when the instance already holds a descriptor, the call makes no registry call and
    changes nothing; when it holds none, an accessor that reads the descriptor makes exactly
    one registry call;
  \<^item> once the instance holds a descriptor after the call, repeating the call returns the same
    outcome, with no registry call;
  \<^item> whenever the descriptor is there (held by the instance, or returned by the registry),
    the token address, token symbol and agent wallet accessors return the optional
    descriptor field itself, absent when the field (or an object on the way to it) is
    missing, and the unit price accessor returns the field when it is present and not
    empty, and the string \<^verbatim>\<open>"0"\<close> otherwise;
  \<^item> a value that an accessor reading the descriptor returns is the one just described, for
    the credit-contract accessor the field it reads.
\<close>

theorem PlanDDOHelper_accessors_cached:
  assumes run: "access env a this w = (r, w')"
  shows "registry_calls (added w w') \<le> 1 \<and>
         (\<not> reads_descriptor a \<longrightarrow> w' = w) \<and>
         (ddo_field w (helper_id this) \<noteq> None \<longrightarrow> w' = w) \<and>
         (reads_descriptor a \<and> ddo_field w (helper_id this) = None \<longrightarrow>
            (\<exists>reply. added w w' = [GetAssetDDO (planDid this) reply])) \<and>
         (ddo_field w' (helper_id this) \<noteq> None \<longrightarrow> access env a this w' = (r, w')) \<and>
         (\<forall>d. descriptor_read env this w = Returns d \<longrightarrow>
            (a \<in> {TokenAddress, TokenSymbol, AgentWallet} \<longrightarrow> r = Returns (descriptor_field a d)) \<and>
            (a = UnitPrice \<longrightarrow>
               r = Returns (Some (case descriptor_field UnitPrice d of
                                    Some p \<Rightarrow> (if p = [] then ''0'' else p) | None \<Rightarrow> ''0'')))) \<and>
         (\<forall>v. r = Returns v \<and> reads_descriptor a \<longrightarrow>
            v = (if a = UnitPrice
                 then Some (case descriptor_field a (ddo_field w' (helper_id this)) of
                              Some p \<Rightarrow> (if p = [] then ''0'' else p) | None \<Rightarrow> ''0'')
                 else descriptor_field a (ddo_field w' (helper_id this))))"
proof (cases "reads_descriptor a")
  case False
  from access_pure[OF False] obtain r0 where pure: "\<And>w. access env a this w = (r0, w)" by blast
  with run have "w' = w" "r = r0" by auto
  moreover from False have "a \<notin> {TokenAddress, TokenSymbol, AgentWallet}" "a \<noteq> UnitPrice"
    by (auto simp: reads_descriptor_def)
  ultimately show ?thesis using pure False by simp
next
  case True
  note acc = access_computed[OF True, of env this]
  have val: "\<And>d v. computed_from a d = Returns v \<Longrightarrow>
              v = (if a = UnitPrice
                   then Some (case descriptor_field a d of
                                Some p \<Rightarrow> (if p = [] then ''0'' else p) | None \<Rightarrow> ''0'')
                   else descriptor_field a d)"
    by (rule computed_from_field)
  obtain r1 w1 where load: "loadDDO env this w = (r1, w1)" by (cases "loadDDO env this w") auto
  from run acc[of w] load have w1: "w1 = w'"
    and r: "r = (case r1 of Returns d \<Rightarrow> computed_from a d | Throws e \<Rightarrow> Throws e
                 | Stalls \<Rightarrow> Stalls)"
    by (auto split: outcome.splits)
  note L = loadDDO_run[OF load, unfolded w1]
  have calls: "registry_calls (added w w') \<le> 1"
    using L by (cases "ddo_field w (helper_id this)") (auto simp: added_def)
  have cached: "ddo_field w (helper_id this) \<noteq> None \<longrightarrow> w' = w"
    using L by auto
  have once: "ddo_field w (helper_id this) = None \<longrightarrow>
                (\<exists>reply. added w w' = [GetAssetDDO (planDid this) reply])"
    using L by (auto simp: added_def)
  have again: "ddo_field w' (helper_id this) \<noteq> None \<longrightarrow> access env a this w' = (r, w')"
  proof
    assume filled: "ddo_field w' (helper_id this) \<noteq> None"
    then obtain d where d: "ddo_field w' (helper_id this) = Some d" by auto
    have r1: "r1 = Returns (Some d)"
    proof (cases "ddo_field w (helper_id this)")
      case None
      with L obtain reply where ev: "events w' = events w @ [GetAssetDDO (planDid this) reply]"
        and rr: "r1 = reply" by auto
      from load None have "w' = w1" using w1 by simp
      show ?thesis
      proof (cases r1)
        case (Returns x)
        with L d show ?thesis by auto
      next
        case (Throws e)
        with load None w1 have "ddo_field w' (helper_id this) = None"
          by (auto simp: loadDDO_def io_bind_def call_def Let_def split: outcome.splits)
        with d show ?thesis by simp
      next
        case Stalls
        with load None w1 have "ddo_field w' (helper_id this) = None"
          by (auto simp: loadDDO_def io_bind_def call_def Let_def split: outcome.splits)
        with d show ?thesis by simp
      qed
    next
      case (Some d0)
      with L d show ?thesis by auto
    qed
    from loadDDO_cached[OF d, of env] acc[of w'] r r1 show "access env a this w' = (r, w')"
      by simp
  qed
  have vals: "\<forall>v. r = Returns v \<and> reads_descriptor a \<longrightarrow>
            v = (if a = UnitPrice
                 then Some (case descriptor_field a (ddo_field w' (helper_id this)) of
                              Some p \<Rightarrow> (if p = [] then ''0'' else p) | None \<Rightarrow> ''0'')
                 else descriptor_field a (ddo_field w' (helper_id this)))"
  proof (intro allI impI)
    fix v assume "r = Returns v \<and> reads_descriptor a"
    with r obtain d where r1: "r1 = Returns d" and fd: "computed_from a d = Returns v"
      by (cases r1) auto
    from L r1 have "ddo_field w' (helper_id this) = d" by auto
    with val[OF fd] show "v = (if a = UnitPrice
                 then Some (case descriptor_field a (ddo_field w' (helper_id this)) of
                              Some p \<Rightarrow> (if p = [] then ''0'' else p) | None \<Rightarrow> ''0'')
                 else descriptor_field a (ddo_field w' (helper_id this)))" by simp
  qed
  have read: "r1 = descriptor_read env this w"
    using load
    by (auto simp: descriptor_read_def loadDDO_def io_bind_def call_def Let_def
        split: option.splits outcome.splits)
  have field: "\<forall>d. descriptor_read env this w = Returns d \<longrightarrow>
            (a \<in> {TokenAddress, TokenSymbol, AgentWallet} \<longrightarrow> r = Returns (descriptor_field a d)) \<and>
            (a = UnitPrice \<longrightarrow>
               r = Returns (Some (case descriptor_field UnitPrice d of
                                    Some p \<Rightarrow> (if p = [] then ''0'' else p) | None \<Rightarrow> ''0'')))"
    using r read by (auto simp: computed_from_def descriptor_field_def)
  from calls cached once again field vals True show ?thesis by simp
qed

theorem PlanDDOHelper_accessors_cached_witness:
  "(\<exists>w'. access calm_env TokenAddress first_helper initial_world = (Returns (Some ''0xbbb''), w') \<and>
        reads_descriptor TokenAddress \<and>
        ddo_field initial_world (helper_id first_helper) = None \<and>
        registry_calls (added initial_world w') = 1 \<and>
        ddo_field w' (helper_id first_helper) \<noteq> None \<and>
        access calm_env TokenAddress first_helper w' = (Returns (Some ''0xbbb''), w') \<and>
        descriptor_field TokenAddress (ddo_field w' (helper_id first_helper)) = Some ''0xbbb'') \<and>
   descriptor_read unpriced_env first_helper initial_world = Returns (Some unpriced_ddo) \<and>
   descriptor_field TokenAddress (Some unpriced_ddo) = None \<and>
   fst (access unpriced_env TokenAddress first_helper initial_world) = Returns None"
proof -
  define w1 where "w1 = snd (access calm_env TokenAddress first_helper initial_world)"
  have run: "access calm_env TokenAddress first_helper initial_world = (Returns (Some ''0xbbb''), w1)"
    unfolding w1_def by (simp add: access_def run_defs calm_env_def first_helper_def)
  have reads: "reads_descriptor TokenAddress"
    by (simp add: reads_descriptor_def)
  have empty: "ddo_field initial_world (helper_id first_helper) = None"
    by (simp add: initial_world_def)
  have filled: "ddo_field w1 (helper_id first_helper) \<noteq> None"
    unfolding w1_def by (simp add: access_def run_defs calm_env_def first_helper_def)
  note T = PlanDDOHelper_accessors_cached[OF run]
  from T reads empty obtain reply where
    "added initial_world w1 = [GetAssetDDO (planDid first_helper) reply]" by blast
  then have calls: "registry_calls (added initial_world w1) = 1" by simp
  from T filled have again:
    "access calm_env TokenAddress first_helper w1 = (Returns (Some ''0xbbb''), w1)"
    by blast
  from T reads have field: "descriptor_field TokenAddress
      (ddo_field w1 (helper_id first_helper)) = Some ''0xbbb''"
    by auto
  have first: "\<exists>w'. access calm_env TokenAddress first_helper initial_world =
          (Returns (Some ''0xbbb''), w') \<and>
        reads_descriptor TokenAddress \<and>
        ddo_field initial_world (helper_id first_helper) = None \<and>
        registry_calls (added initial_world w') = 1 \<and>
        ddo_field w' (helper_id first_helper) \<noteq> None \<and>
        access calm_env TokenAddress first_helper w' = (Returns (Some ''0xbbb''), w') \<and>
        descriptor_field TokenAddress (ddo_field w' (helper_id first_helper)) = Some ''0xbbb''"
    using run reads empty calls filled again field by (intro exI[of _ w1] conjI)
  have rd: "descriptor_read unpriced_env first_helper initial_world = Returns (Some unpriced_ddo)"
    by (simp add: descriptor_read_def initial_world_def unpriced_env_def)
  have missing: "descriptor_field TokenAddress (Some unpriced_ddo) = None"
    by (simp add: descriptor_field_def additional_information_def service2_attributes_def
        nth_opt_def unpriced_ddo_def)
  have run2: "access unpriced_env TokenAddress first_helper initial_world =
      (fst (access unpriced_env TokenAddress first_helper initial_world),
       snd (access unpriced_env TokenAddress first_helper initial_world))"
    by simp
  from PlanDDOHelper_accessors_cached[OF run2] rd missing
  have absent: "fst (access unpriced_env TokenAddress first_helper initial_world) = Returns None"
    by auto
  from first rd missing absent show ?thesis by (intro conjI)
qed

section \<open>Theorems: settlement\<close>

subsection \<open>Counting\<close>

lemma within_append:
  "within g q c t xs \<Longrightarrow> within g' q' c' t' ys \<Longrightarrow>
   within (g + g') (q + q') (c + c') (t + t') (xs @ ys)"
  by (auto simp: within_def)

lemma within_mono:
  "within g q c t es \<Longrightarrow> g \<le> g' \<Longrightarrow> q \<le> q' \<Longrightarrow> c \<le> c' \<Longrightarrow> t \<le> t' \<Longrightarrow> within g' q' c' t' es"
  by (auto simp: within_def)

lemma quiet_upto_Nil [simp]: "quiet_upto g q c t []"
  by (simp add: quiet_upto_def within_def)



lemma filter_through_notable:
  assumes "filter notable es = filter K es" and "\<And>e. P e \<Longrightarrow> notable e" and "\<And>e. K e \<Longrightarrow> \<not> P e"
  shows "filter P es = []"
proof -
  have "filter P es = filter P (filter notable es)"
    using assms(2) by (induction es) auto
  also have "\<dots> = filter P (filter K es)" by (simp add: assms(1))
  also have "\<dots> = []" using assms(3) by (induction es) auto
  finally show ?thesis .
qed

lemma notable_kinds:
  "is_GetPlanBalance e \<Longrightarrow> notable e" "is_QueryFilter e \<Longrightarrow> notable e"
  "is_OrderPlan e \<Longrightarrow> notable e" "is_GetTransactionCount e \<Longrightarrow> notable e"
  "is_UpdateStep e \<Longrightarrow> notable e"
  by (cases e; simp)+

lemma query_threw_kind: "query_threw e \<Longrightarrow> is_GetPlanBalance e \<or> is_QueryFilter e"
  by (cases e rule: query_threw.cases) auto

lemma no_query_threw:
  assumes "filter is_GetPlanBalance es = []" and "filter is_QueryFilter es = []"
  shows "\<not> list_ex query_threw es"
proof
  assume "list_ex query_threw es"
  then obtain e where "e \<in> set es" "query_threw e" by (auto simp: list_ex_iff)
  with query_threw_kind[of e] assms show False by (auto simp: filter_empty_conv)
qed

lemma plain_quiet:
  assumes "filter notable es = []"
  shows "quiet_upto 0 0 0 0 es"
proof -
  have n: "filter notable es = filter (\<lambda>e. False) es" using assms by simp
  have "filter is_GetPlanBalance es = []" "filter is_QueryFilter es = []"
    "filter is_OrderPlan es = []" "filter is_GetTransactionCount es = []"
    "filter is_UpdateStep es = []"
    by (rule filter_through_notable[OF n]; simp add: notable_kinds)+
  then show ?thesis by (simp add: quiet_upto_def within_def no_query_threw)
qed



subsection \<open>Effects of the parts of a settlement\<close>















subsection \<open>Settlement: the retried swap\<close>





subsection \<open>Settlement: the retried operations and their composition\<close>








subsection \<open>Composition\<close>

















lemma settled_mono:
  assumes "\<exists>es. events w' = events w @ es \<and> settled step g q c t r es"
    and "g \<le> G" "q \<le> Q" "c \<le> C" "t \<le> T"
  shows "\<exists>es. events w' = events w @ es \<and> settled step G Q C T r es"
  using assms by (auto simp: settled_def within_def)









subsection \<open>Settlement: the claims\<close>

text \<open>
  Claim C2 at a concrete settlement. The plan has no credits, the plan tokens differ and the
  agent wallet does not hold the price, so the swap is performed: approve (nonce 7) and swap
  (nonce 8) succeed. When \<^verbatim>\<open>transferAmountToAgentWallet\<close> then reads the balance, the wallet
  holds 40 of the 100 base units: it returns \<^verbatim>\<open>{ success: false }\<close> and no transfer is
  submitted. \<^verbatim>\<open>performSwapForPlan\<close> still returns \<^verbatim>\<open>success: true\<close>; the settlement announces
  \<^verbatim>\<open>Transfer successful\<close> without a transaction hash, calls \<^verbatim>\<open>orderPlan\<close>, writes no Failed
  step and returns \<^verbatim>\<open>true\<close>.
\<close>

theorem settlement_orders_after_unmade_transfer:
  "\<exists>w'. settle drained_env 1 initial_world = (Returns True, w') \<and>
        submitted (events w') = [(ApproveTx, Some 7), (SwapTx, Some 8)] \<and>
        transfers (events w') = [] \<and>
        BalanceOf ''0xbbb'' ''0xwallet'' (Returns 40) \<in> set (events w') \<and>
        SendFriendlySseEvent ''task-1'' ''transaction'' ''Transfer successful''
          [(''txHash'', None)] (Returns ()) \<in> set (events w') \<and>
        filter is_OrderPlan (events w') =
          [OrderPlan ''did:nv:0b'' (Returns \<lparr>success = True, agreementId = ''0xagreement''\<rparr>)] \<and>
        filter is_UpdateStep (events w') = []"
  by (simp add: run_defs drained_env_def calm_env_def)





section \<open>Theorems: the init stage\<close>

text \<open>
  Claim C9. Every run of \<^verbatim>\<open>handleInitStep\<close> on a step begins by generating five
  identifiers \<open>s1 .. s5\<close>. Its writes to the ledger are then, in this order, one batch
  \<^verbatim>\<open>createSteps\<close> under the step's own \<^verbatim>\<open>did\<close> and task, and, only after that batch has
  returned, one update of the init step to Completed with the request as output. The batch
  is the chain callSongGenerator, generateMusicScript, callImagesGenerator,
  callVideoGenerator, compileVideo: the first names the init step as its predecessor, each
  later one the step before it, and only compileVideo is marked last. The handler returns
  exactly when the log entry, the batch and the update have returned; when one of them
  does not, nothing later is written.
\<close>

theorem handleInitStep_creates_chain:
  assumes run: "handleInitStep env step w = (r, w')"
  shows "\<exists>s1 s2 s3 s4 s5 rest.
           added w w' =
             [GenerateStepId s1, GenerateStepId s2, GenerateStepId s3, GenerateStepId s4,
              GenerateStepId s5] @ rest \<and>
           ((\<exists>lr. ledger_writes rest = [] \<and> lr \<noteq> Returns () \<and> r = lr \<and>
                  (\<exists>m. last rest = LogMessage (task_id step) ''info'' m lr)) \<or>
            (\<exists>cr. ledger_writes rest =
                     [CreateSteps (did step) (task_id step)
                        (successor_chain step s1 s2 s3 s4 s5) cr] \<and>
                  cr \<noteq> Returns () \<and> r = cr) \<or>
            (\<exists>ur. ledger_writes rest =
                     [CreateSteps (did step) (task_id step)
                        (successor_chain step s1 s2 s3 s4 s5) (Returns ()),
                      UpdateStep (did step)
                        (step\<lparr>step_status := Completed_status,
                              step_output := Some (input_query step)\<rparr>) ur] \<and>
                  (r = Returns ()) = (\<exists>k. ur = Returns k) \<and>
                  (\<forall>e. ur = Throws e \<longrightarrow> r = Throws e)))"
  using run unfolding handleInitStep_def
  by (auto simp: io_bind_def io_return_def call_def call_local_def not_awaited_def Let_def
        added_def ledger_writes_def successor_chain_def sendFriendlySseEvent_def logMessage_def
        updateStep_def
        split: outcome.splits prod.splits)

text \<open>In \<open>calm_env\<close> every call returns and the generated identifiers are \<^verbatim>\<open>step-0\<close> to
  \<^verbatim>\<open>step-4\<close>.\<close>

theorem handleInitStep_creates_chain_witness:
  "\<exists>w'. handleInitStep calm_env init_step initial_world = (Returns (), w') \<and>
        take 5 (added initial_world w') =
          [GenerateStepId ''step-0'', GenerateStepId ''step-1'', GenerateStepId ''step-2'',
           GenerateStepId ''step-3'', GenerateStepId ''step-4''] \<and>
        ledger_writes (added initial_world w') =
          [CreateSteps ''did:step:0'' ''task-1''
             (successor_chain init_step ''step-0'' ''step-1'' ''step-2'' ''step-3'' ''step-4'')
             (Returns ()),
           UpdateStep ''did:step:0''
             (init_step\<lparr>step_status := Completed_status,
                         step_output := Some ''a song about rain''\<rparr>) (Returns 201)]"
proof -
  define w1 where "w1 = snd (handleInitStep calm_env init_step initial_world)"
  have run: "handleInitStep calm_env init_step initial_world = (Returns (), w1)"
    unfolding w1_def
    by (simp add: handleInitStep_def run_defs calm_env_def init_step_def)
  have ids: "take 5 (added initial_world w1) =
          [GenerateStepId ''step-0'', GenerateStepId ''step-1'', GenerateStepId ''step-2'',
           GenerateStepId ''step-3'', GenerateStepId ''step-4'']"
    unfolding w1_def
    by (simp add: handleInitStep_def run_defs calm_env_def init_step_def)
  have upd: "UpdateStep ''did:step:0''
             (init_step\<lparr>step_status := Completed_status,
                         step_output := Some ''a song about rain''\<rparr>) (Returns 201)
             \<in> set (added initial_world w1)"
    unfolding w1_def
    by (simp add: handleInitStep_def run_defs calm_env_def init_step_def Completed_status_def)
  from handleInitStep_creates_chain[OF run] obtain s1 s2 s3 s4 s5 rest ur where
    ev: "added initial_world w1 =
           [GenerateStepId s1, GenerateStepId s2, GenerateStepId s3, GenerateStepId s4,
            GenerateStepId s5] @ rest"
    and lw: "ledger_writes rest =
               [CreateSteps (did init_step) (task_id init_step)
                  (successor_chain init_step s1 s2 s3 s4 s5) (Returns ()),
                UpdateStep (did init_step)
                  (init_step\<lparr>step_status := Completed_status,
                              step_output := Some (input_query init_step)\<rparr>) ur]"
    by auto
  from ev ids have s: "s1 = ''step-0''" "s2 = ''step-1''" "s3 = ''step-2''" "s4 = ''step-3''"
    "s5 = ''step-4''" by simp_all
  from ev have lw2: "ledger_writes (added initial_world w1) = ledger_writes rest"
    by (simp add: ledger_writes_def)
  from upd ev have "UpdateStep ''did:step:0''
             (init_step\<lparr>step_status := Completed_status,
                         step_output := Some ''a song about rain''\<rparr>) (Returns 201)
             \<in> set (ledger_writes rest)"
    by (auto simp: ledger_writes_def)
  with lw have "ur = Returns 201" by auto
  with lw lw2 s have "ledger_writes (added initial_world w1) =
          [CreateSteps ''did:step:0'' ''task-1''
             (successor_chain init_step ''step-0'' ''step-1'' ''step-2'' ''step-3'' ''step-4'')
             (Returns ()),
           UpdateStep ''did:step:0''
             (init_step\<lparr>step_status := Completed_status,
                         step_output := Some ''a song about rain''\<rparr>) (Returns 201)]"
    by (simp add: init_step_def)
  with run ids show ?thesis by (intro exI[of _ w1] conjI)
qed


section \<open>Theorems: task dispatch\<close>
















end
